theory Spec2Isabelle
  imports Main "HOL-Library.Word" "HOL-Library.Signed_Division"
begin

unbundle bit_operations_syntax

section \<open>Go values shared by the builder and the codecs\<close>

text \<open>
  A Go byte is an 8-bit word, \<open>int16\<close>, \<open>int64\<close> and \<open>uint64\<close> are words of their width.
  A byte slice is \<open>byte list option\<close>: \<open>None\<close> is the nil slice (SQL NULL at this API),
  \<open>Some []\<close> the empty non-nil slice. A Go string is a \<open>string\<close>; \<open>[]byte(s)\<close> is
  \<open>go_bytes s\<close>.
\<close>

type_synonym byte = "8 word"
type_synonym int16 = "16 word"
type_synonym int64 = "64 word"
type_synonym uint64 = "64 word"
type_synonym bytes = "byte list option"

definition go_bytes :: "string \<Rightarrow> byte list" where
  "go_bytes s = map of_char s"

text \<open>Go's \<open>append(buf, xs...)\<close> on contents: appending nothing to nil stays nil.\<close>

fun go_append :: "bytes \<Rightarrow> byte list \<Rightarrow> bytes" where
  "go_append None [] = None"
| "go_append None (x # xs) = Some (x # xs)"
| "go_append (Some b) xs = Some (b @ xs)"

text \<open>\<open>len(buf)\<close>: the nil slice has length 0.\<close>

fun go_len :: "bytes \<Rightarrow> nat" where
  "go_len None = 0"
| "go_len (Some b) = length b"

text \<open>The format codes of package pgtype (text is 0, binary is 1).\<close>

definition TextFormatCode :: int16 where
  "TextFormatCode = 0"

definition BinaryFormatCode :: int16 where
  "BinaryFormatCode = 1"

text \<open>
  Errors are values. The source builds them with \<open>fmt.Errorf\<close>; each constructor stands for
  one message: \<open>NullNotAllowed\<close> is "cannot scan null into %T", \<open>InvalidLength t n\<close> is
  "invalid length for t: n", \<open>LossyConversion\<close> is "cannot losslessly convert %v to int64",
  \<open>ErrScanTargetTypeChanged\<close> is the package variable of that name, \<open>SerializationError\<close>
  the builder's "Cannot encode ..." error, \<open>OtherError\<close> an error returned by a collaborator
  (a valuer, the registry). A failed type assertion \<open>x.(T)\<close> and a slice expression out of
  range panic.
\<close>

datatype error =
    NullNotAllowed
  | InvalidLength string nat
  | LossyConversion uint64
  | ErrScanTargetTypeChanged
  | SerializationError
  | OtherError string
  | PanicInterfaceConversion
  | PanicSliceBounds

section \<open>Value wrappers\<close>

record Bool =
  Bool_Bool :: bool
  Bool_Valid :: bool

text \<open>\<open>Bool{}\<close>, the zero value.\<close>

definition Bool_zero :: Bool where
  "Bool_zero = \<lparr>Bool_Bool = False, Bool_Valid = False\<rparr>"

text \<open>\<open>func (b *Bool) ScanBool(v Bool) error\<close>: the receiver's new value and the error.\<close>

definition ScanBool :: "Bool \<Rightarrow> Bool \<Rightarrow> Bool \<times> error option" where
  "ScanBool b v = (v, None)"

definition BoolValue :: "Bool \<Rightarrow> Bool \<times> error option" where
  "BoolValue b = (b, None)"

record Float8 =
  Float8_Float :: uint64
  Float8_Valid :: bool

text \<open>
  A \<open>float64\<close> is carried as its IEEE-754 bit pattern, so \<open>math.Float64bits\<close> and
  \<open>math.Float64frombits\<close> are the identity; the arithmetic on doubles that the float8
  codec needs is defined on bit patterns in the float8 section.
\<close>

definition Float8_zero :: Float8 where
  "Float8_zero = \<lparr>Float8_Float = 0, Float8_Valid = False\<rparr>"

definition ScanFloat64 :: "Float8 \<Rightarrow> Float8 \<Rightarrow> Float8 \<times> error option" where
  "ScanFloat64 f n = (n, None)"

definition Float64Value :: "Float8 \<Rightarrow> Float8 \<times> error option" where
  "Float64Value f = (f, None)"

text \<open>
  Modelled from the spec: the declaration of \<open>Int8\<close> (package pgtype) is not among the
  sources; the float8 codec builds \<open>Int8{Int: i64, Valid: true}\<close> and the spec's scenario S4
  names \<open>Int8{3, Valid}\<close>, an int64 payload with a Valid flag, whose \<open>ScanInt64\<close> stores
  its argument as the other wrappers do.
\<close>

record Int8 =
  Int8_Int :: int64
  Int8_Valid :: bool

definition Int8_zero :: Int8 where
  "Int8_zero = \<lparr>Int8_Int = 0, Int8_Valid = False\<rparr>"

definition Int8_ScanInt64 :: "Int8 \<Rightarrow> Int8 \<Rightarrow> Int8 \<times> error option" where
  "Int8_ScanInt64 dst n = (n, None)"

definition Int8_Int64Value :: "Int8 \<Rightarrow> Int8 \<times> error option" where
  "Int8_Int64Value n = (n, None)"

text \<open>
  Modelled from the spec: the declaration of \<open>InfinityModifier\<close> is not among the sources;
  the spec gives it the three values None, +Infinity and -Infinity (the source writes
  \<open>NegativeInfinity\<close> also as \<open>-Infinity\<close>).
\<close>

datatype InfinityModifier = None_IM | Infinity | NegativeInfinity

text \<open>
  A \<open>time.Time\<close> (Go's standard library) is the instant it denotes: \<open>Time_Unix\<close> is the
  result of \<open>t.Unix()\<close>, the seconds since 1970-01-01 UTC, and \<open>Time_Nanosecond\<close> the
  result of \<open>t.Nanosecond()\<close>, in the range 0 to 999999999. The location is not part of
  the instant. \<open>Time{}\<close> is 0001-01-01 00:00:00 UTC.
\<close>

record Time =
  Time_Unix :: int64
  Time_Nanosecond :: int64

definition Time_zero :: Time where
  "Time_zero = \<lparr>Time_Unix = - 62135596800, Time_Nanosecond = 0\<rparr>"

record Timestamptz =
  Timestamptz_Time :: Time
  Timestamptz_InfinityModifier :: InfinityModifier
  Timestamptz_Valid :: bool

definition Timestamptz_zero :: Timestamptz where
  "Timestamptz_zero =
     \<lparr>Timestamptz_Time = Time_zero, Timestamptz_InfinityModifier = None_IM,
      Timestamptz_Valid = False\<rparr>"

definition ScanTimestamptz :: "Timestamptz \<Rightarrow> Timestamptz \<Rightarrow> Timestamptz \<times> error option" where
  "ScanTimestamptz tstz v = (v, None)"

definition TimestamptzValue :: "Timestamptz \<Rightarrow> Timestamptz \<times> error option" where
  "TimestamptzValue tstz = (tstz, None)"

section \<open>Dynamic values and scan targets\<close>

text \<open>
  An \<open>interface{}\<close> argument of an encode plan is one of the value shapes of the three
  codecs, or something else. A scan target is a pointer; the constructor carries the
  current content of the pointed-to variable, and a scan returns the target as it is after
  the call together with the error.
\<close>

datatype go_value =
    V_bool bool
  | V_Bool Bool
  | V_float64 uint64
  | V_Float8 Float8
  | V_Int8 Int8
  | V_Timestamptz Timestamptz
  | V_other

datatype target =
    Ptr_bool bool
  | Ptr_Bool Bool
  | Ptr_float64 uint64
  | Ptr_Float8 Float8
  | Ptr_Int8 Int8
  | Ptr_Timestamptz Timestamptz
  | Ptr_other

type_synonym scan_result = "target \<times> error option"
type_synonym encode_result = "bytes \<times> error option"

text \<open>
  Type assertions to the capability interfaces. \<open>value.(BoolValuer).BoolValue()\<close> is
  \<open>as_BoolValuer value\<close>: \<open>None\<close> when the value does not implement the interface,
  otherwise the result of the method. \<open>dst.(BoolScanner)\<close> is \<open>as_BoolScanner dst\<close>:
  the method \<open>ScanBool\<close> of the target, which returns the target after the call.
\<close>

fun as_BoolValuer :: "go_value \<Rightarrow> (Bool \<times> error option) option" where
  "as_BoolValuer (V_Bool b) = Some (BoolValue b)"
| "as_BoolValuer _ = None"

fun as_BoolScanner :: "target \<Rightarrow> (Bool \<Rightarrow> scan_result) option" where
  "as_BoolScanner (Ptr_Bool b) =
     Some (\<lambda>v. case ScanBool b v of (b', err) \<Rightarrow> (Ptr_Bool b', err))"
| "as_BoolScanner _ = None"

section \<open>The bool codec\<close>

definition encodePlanBoolCodecBinaryBool_Encode :: "go_value \<Rightarrow> bytes \<Rightarrow> encode_result" where
  "encodePlanBoolCodecBinaryBool_Encode val buf =
     (case val of
        V_bool v \<Rightarrow> (if v then (go_append buf [1], None) else (go_append buf [0], None))
      | _ \<Rightarrow> (None, Some PanicInterfaceConversion))"

definition encodePlanBoolCodecTextBoolValuer_Encode :: "go_value \<Rightarrow> bytes \<Rightarrow> encode_result" where
  "encodePlanBoolCodecTextBoolValuer_Encode val buf =
     (case as_BoolValuer val of
        None \<Rightarrow> (None, Some PanicInterfaceConversion)
      | Some (b, Some err) \<Rightarrow> (None, Some err)
      | Some (b, None) \<Rightarrow>
          if \<not> Bool_Valid b then (None, None)
          else if Bool_Bool b then (go_append buf [of_char CHR ''t''], None)
          else (go_append buf [of_char CHR ''f''], None))"

definition encodePlanBoolCodecBinaryBoolValuer_Encode :: "go_value \<Rightarrow> bytes \<Rightarrow> encode_result" where
  "encodePlanBoolCodecBinaryBoolValuer_Encode val buf =
     (case as_BoolValuer val of
        None \<Rightarrow> (None, Some PanicInterfaceConversion)
      | Some (b, Some err) \<Rightarrow> (None, Some err)
      | Some (b, None) \<Rightarrow>
          if \<not> Bool_Valid b then (None, None)
          else if Bool_Bool b then (go_append buf [1], None)
          else (go_append buf [0], None))"

definition encodePlanBoolCodecTextBool_Encode :: "go_value \<Rightarrow> bytes \<Rightarrow> encode_result" where
  "encodePlanBoolCodecTextBool_Encode val buf =
     (case val of
        V_bool v \<Rightarrow>
          (if v then (go_append buf [of_char CHR ''t''], None)
           else (go_append buf [of_char CHR ''f''], None))
      | _ \<Rightarrow> (None, Some PanicInterfaceConversion))"

text \<open>
  \<open>BoolCodec.PlanEncode\<close>: the type switch tries the native \<open>bool\<close> first, then the
  \<open>BoolValuer\<close> capability; \<open>None\<close> is the nil plan.
\<close>

definition BoolCodec_PlanEncode :: "int16 \<Rightarrow> go_value \<Rightarrow> (go_value \<Rightarrow> bytes \<Rightarrow> encode_result) option" where
  "BoolCodec_PlanEncode format val =
     (if format = BinaryFormatCode then
        (case val of
           V_bool _ \<Rightarrow> Some encodePlanBoolCodecBinaryBool_Encode
         | _ \<Rightarrow> (case as_BoolValuer val of
                   Some _ \<Rightarrow> Some encodePlanBoolCodecBinaryBoolValuer_Encode
                 | None \<Rightarrow> None))
      else if format = TextFormatCode then
        (case val of
           V_bool _ \<Rightarrow> Some encodePlanBoolCodecTextBool_Encode
         | _ \<Rightarrow> (case as_BoolValuer val of
                   Some _ \<Rightarrow> Some encodePlanBoolCodecTextBoolValuer_Encode
                 | None \<Rightarrow> None))
      else None)"

definition scanPlanBinaryBoolToBool_Scan :: "bytes \<Rightarrow> target \<Rightarrow> scan_result" where
  "scanPlanBinaryBoolToBool_Scan src dst =
     (case src of
        None \<Rightarrow> (dst, Some NullNotAllowed)
      | Some bs \<Rightarrow>
          if length bs \<noteq> 1 then (dst, Some (InvalidLength ''bool'' (length bs)))
          else (case dst of
                  Ptr_bool p \<Rightarrow> (Ptr_bool (bs ! 0 = 1), None)
                | _ \<Rightarrow> (dst, Some ErrScanTargetTypeChanged)))"

definition scanPlanTextAnyToBool_Scan :: "bytes \<Rightarrow> target \<Rightarrow> scan_result" where
  "scanPlanTextAnyToBool_Scan src dst =
     (case src of
        None \<Rightarrow> (dst, Some NullNotAllowed)
      | Some bs \<Rightarrow>
          if length bs \<noteq> 1 then (dst, Some (InvalidLength ''bool'' (length bs)))
          else (case dst of
                  Ptr_bool p \<Rightarrow> (Ptr_bool (bs ! 0 = of_char CHR ''t''), None)
                | _ \<Rightarrow> (dst, Some ErrScanTargetTypeChanged)))"

definition scanPlanBinaryBoolToBoolScanner_Scan :: "bytes \<Rightarrow> target \<Rightarrow> scan_result" where
  "scanPlanBinaryBoolToBoolScanner_Scan src dst =
     (case as_BoolScanner dst of
        None \<Rightarrow> (dst, Some ErrScanTargetTypeChanged)
      | Some s \<Rightarrow>
          (case src of
             None \<Rightarrow> s Bool_zero
           | Some bs \<Rightarrow>
               if length bs \<noteq> 1 then (dst, Some (InvalidLength ''bool'' (length bs)))
               else s \<lparr>Bool_Bool = (bs ! 0 = 1), Bool_Valid = True\<rparr>))"

definition scanPlanTextAnyToBoolScanner_Scan :: "bytes \<Rightarrow> target \<Rightarrow> scan_result" where
  "scanPlanTextAnyToBoolScanner_Scan src dst =
     (case as_BoolScanner dst of
        None \<Rightarrow> (dst, Some ErrScanTargetTypeChanged)
      | Some s \<Rightarrow>
          (case src of
             None \<Rightarrow> s Bool_zero
           | Some bs \<Rightarrow>
               if length bs \<noteq> 1 then (dst, Some (InvalidLength ''bool'' (length bs)))
               else s \<lparr>Bool_Bool = (bs ! 0 = of_char CHR ''t''), Bool_Valid = True\<rparr>))"

text \<open>\<open>BoolCodec.PlanScan\<close>: \<open>*bool\<close> first, then the \<open>BoolScanner\<close> capability.\<close>

definition BoolCodec_PlanScan :: "int16 \<Rightarrow> target \<Rightarrow> (bytes \<Rightarrow> target \<Rightarrow> scan_result) option" where
  "BoolCodec_PlanScan format tgt =
     (if format = BinaryFormatCode then
        (case tgt of
           Ptr_bool _ \<Rightarrow> Some scanPlanBinaryBoolToBool_Scan
         | _ \<Rightarrow> (case as_BoolScanner tgt of
                   Some _ \<Rightarrow> Some scanPlanBinaryBoolToBoolScanner_Scan
                 | None \<Rightarrow> None))
      else if format = TextFormatCode then
        (case tgt of
           Ptr_bool _ \<Rightarrow> Some scanPlanTextAnyToBool_Scan
         | _ \<Rightarrow> (case as_BoolScanner tgt of
                   Some _ \<Rightarrow> Some scanPlanTextAnyToBoolScanner_Scan
                 | None \<Rightarrow> None))
      else None)"

section \<open>Wire primitives\<close>

text \<open>
  \<open>pgio.AppendUint64\<close> and \<open>pgio.AppendInt64\<close> (package github.com/jackc/pgio) append
  the eight bytes of the value, most significant first; \<open>binary.BigEndian.Uint64\<close> (Go's
  standard library) reads them back. The source calls the latter only on slices of length 8.
  The conversions \<open>int64(u)\<close> and \<open>uint64(i)\<close> keep the bit pattern.
\<close>

definition be_bytes :: "uint64 \<Rightarrow> byte list" where
  "be_bytes v =
     [ucast (drop_bit 56 v), ucast (drop_bit 48 v), ucast (drop_bit 40 v), ucast (drop_bit 32 v),
      ucast (drop_bit 24 v), ucast (drop_bit 16 v), ucast (drop_bit 8 v), ucast v]"

definition AppendUint64 :: "bytes \<Rightarrow> uint64 \<Rightarrow> bytes" where
  "AppendUint64 buf v = go_append buf (be_bytes v)"

definition AppendInt64 :: "bytes \<Rightarrow> int64 \<Rightarrow> bytes" where
  "AppendInt64 buf n = AppendUint64 buf n"

definition BigEndian_Uint64 :: "byte list \<Rightarrow> uint64" where
  "BigEndian_Uint64 b =
     ucast (b ! 7) OR push_bit 8 (ucast (b ! 6)) OR push_bit 16 (ucast (b ! 5)) OR
     push_bit 24 (ucast (b ! 4)) OR push_bit 32 (ucast (b ! 3)) OR push_bit 40 (ucast (b ! 2)) OR
     push_bit 48 (ucast (b ! 1)) OR push_bit 56 (ucast (b ! 0))"

text \<open>Go's \<open>/\<close> and \<open>%\<close> on \<open>int64\<close> truncate towards zero and wrap around.\<close>

definition int64_div :: "int64 \<Rightarrow> int64 \<Rightarrow> int64" where
  "int64_div a b = word_of_int (sint a sdiv sint b)"

definition int64_rem :: "int64 \<Rightarrow> int64 \<Rightarrow> int64" where
  "int64_rem a b = word_of_int (sint a smod sint b)"

section \<open>The timestamptz codec\<close>

definition pgTimestamptzHourFormat :: string where
  "pgTimestamptzHourFormat = ''2006-01-02 15:04:05.999999999Z07''"

definition pgTimestamptzMinuteFormat :: string where
  "pgTimestamptzMinuteFormat = ''2006-01-02 15:04:05.999999999Z07:00''"

definition pgTimestamptzSecondFormat :: string where
  "pgTimestamptzSecondFormat = ''2006-01-02 15:04:05.999999999Z07:00:00''"

definition microsecFromUnixEpochToY2K :: int64 where
  "microsecFromUnixEpochToY2K = 946684800 * 1000000"

definition negativeInfinityMicrosecondOffset :: int64 where
  "negativeInfinityMicrosecondOffset = - 9223372036854775808"

definition infinityMicrosecondOffset :: int64 where
  "infinityMicrosecondOffset = 9223372036854775807"

text \<open>
  \<open>time.Unix(sec, nsec)\<close> (Go's standard library) is the instant \<open>sec\<close> seconds and
  \<open>nsec\<close> nanoseconds after 1970-01-01 UTC; \<open>nsec\<close> may lie outside 0 to 999999999 and
  is then carried into the seconds.
\<close>

definition time_Unix :: "int64 \<Rightarrow> int64 \<Rightarrow> Time" where
  "time_Unix sec nsec =
     (if sint nsec < 0 \<or> 1000000000 \<le> sint nsec then
        (let n = int64_div nsec 1000000000;
             sec1 = sec + n;
             nsec1 = nsec - n * 1000000000
         in if sint nsec1 < 0
            then \<lparr>Time_Unix = sec1 - 1, Time_Nanosecond = nsec1 + 1000000000\<rparr>
            else \<lparr>Time_Unix = sec1, Time_Nanosecond = nsec1\<rparr>)
      else \<lparr>Time_Unix = sec, Time_Nanosecond = nsec\<rparr>)"

fun as_TimestamptzValuer :: "go_value \<Rightarrow> (Timestamptz \<times> error option) option" where
  "as_TimestamptzValuer (V_Timestamptz t) = Some (TimestamptzValue t)"
| "as_TimestamptzValuer _ = None"

fun as_TimestamptzScanner :: "target \<Rightarrow> (Timestamptz \<Rightarrow> scan_result) option" where
  "as_TimestamptzScanner (Ptr_Timestamptz t) =
     Some (\<lambda>v. case ScanTimestamptz t v of (t', err) \<Rightarrow> (Ptr_Timestamptz t', err))"
| "as_TimestamptzScanner _ = None"

definition encodePlanTimestamptzCodecBinary_Encode :: "go_value \<Rightarrow> bytes \<Rightarrow> encode_result" where
  "encodePlanTimestamptzCodecBinary_Encode val buf =
     (case as_TimestamptzValuer val of
        None \<Rightarrow> (None, Some PanicInterfaceConversion)
      | Some (ts, Some err) \<Rightarrow> (None, Some err)
      | Some (ts, None) \<Rightarrow>
          if \<not> Timestamptz_Valid ts then (None, None)
          else
            (let microsecSinceY2K =
               (case Timestamptz_InfinityModifier ts of
                  None_IM \<Rightarrow>
                    (let microsecSinceUnixEpoch =
                           Time_Unix (Timestamptz_Time ts) * 1000000 +
                           int64_div (Time_Nanosecond (Timestamptz_Time ts)) 1000
                     in microsecSinceUnixEpoch - microsecFromUnixEpochToY2K)
                | Infinity \<Rightarrow> infinityMicrosecondOffset
                | NegativeInfinity \<Rightarrow> negativeInfinityMicrosecondOffset)
             in (AppendInt64 buf microsecSinceY2K, None)))"

text \<open>
  The text plans use \<open>Time.Format\<close> and \<open>time.Parse\<close> of Go's standard library, which
  are parameters here: \<open>fmt t\<close> is
  \<open>t.UTC().Truncate(time.Microsecond).Format(pgTimestamptzSecondFormat)\<close> and
  \<open>parse layout s\<close> is \<open>time.Parse(layout, s)\<close>.
\<close>

definition encodePlanTimestamptzCodecText_Encode ::
  "(Time \<Rightarrow> string) \<Rightarrow> go_value \<Rightarrow> bytes \<Rightarrow> encode_result" where
  "encodePlanTimestamptzCodecText_Encode fmt val buf =
     (case as_TimestamptzValuer val of
        None \<Rightarrow> (None, Some PanicInterfaceConversion)
      | Some (ts, Some err) \<Rightarrow> (None, Some err)
      | Some (ts, None) \<Rightarrow>
          (let s = (case Timestamptz_InfinityModifier ts of
                      None_IM \<Rightarrow> fmt (Timestamptz_Time ts)
                    | Infinity \<Rightarrow> ''infinity''
                    | NegativeInfinity \<Rightarrow> ''-infinity'')
           in (go_append buf (go_bytes s), None)))"

definition TimestamptzCodec_PlanEncode ::
  "(Time \<Rightarrow> string) \<Rightarrow> int16 \<Rightarrow> go_value \<Rightarrow> (go_value \<Rightarrow> bytes \<Rightarrow> encode_result) option" where
  "TimestamptzCodec_PlanEncode fmt format val =
     (case as_TimestamptzValuer val of
        None \<Rightarrow> None
      | Some _ \<Rightarrow>
          if format = BinaryFormatCode then Some encodePlanTimestamptzCodecBinary_Encode
          else if format = TextFormatCode then Some (encodePlanTimestamptzCodecText_Encode fmt)
          else None)"

definition scanPlanBinaryTimestamptzToTimestamptzScanner_Scan :: "bytes \<Rightarrow> target \<Rightarrow> scan_result" where
  "scanPlanBinaryTimestamptzToTimestamptzScanner_Scan src dst =
     (case as_TimestamptzScanner dst of
        None \<Rightarrow> (dst, Some PanicInterfaceConversion)
      | Some scanner \<Rightarrow>
          (case src of
             None \<Rightarrow> scanner Timestamptz_zero
           | Some bs \<Rightarrow>
               if length bs \<noteq> 8 then (dst, Some (InvalidLength ''timestamptz'' (length bs)))
               else
                 (let microsecSinceY2K = BigEndian_Uint64 bs;
                      tstz =
                        (if microsecSinceY2K = infinityMicrosecondOffset then
                           \<lparr>Timestamptz_Time = Time_zero, Timestamptz_InfinityModifier = Infinity,
                            Timestamptz_Valid = True\<rparr>
                         else if microsecSinceY2K = negativeInfinityMicrosecondOffset then
                           \<lparr>Timestamptz_Time = Time_zero,
                            Timestamptz_InfinityModifier = NegativeInfinity,
                            Timestamptz_Valid = True\<rparr>
                         else
                           (let tim = time_Unix
                                  (int64_div microsecFromUnixEpochToY2K 1000000 +
                                   int64_div microsecSinceY2K 1000000)
                                  (int64_rem microsecFromUnixEpochToY2K 1000000 * 1000 +
                                   int64_rem microsecSinceY2K 1000000 * 1000)
                            in \<lparr>Timestamptz_Time = tim, Timestamptz_InfinityModifier = None_IM,
                                Timestamptz_Valid = True\<rparr>))
                  in scanner tstz)))"

definition scanPlanTextTimestamptzToTimestamptzScanner_Scan ::
  "(string \<Rightarrow> byte list \<Rightarrow> Time \<times> error option) \<Rightarrow> bytes \<Rightarrow> target \<Rightarrow> scan_result" where
  "scanPlanTextTimestamptzToTimestamptzScanner_Scan parse src dst =
     (case as_TimestamptzScanner dst of
        None \<Rightarrow> (dst, Some PanicInterfaceConversion)
      | Some scanner \<Rightarrow>
          (case src of
             None \<Rightarrow> scanner Timestamptz_zero
           | Some sbuf \<Rightarrow>
               if sbuf = go_bytes ''infinity'' then
                 scanner \<lparr>Timestamptz_Time = Time_zero, Timestamptz_InfinityModifier = Infinity,
                          Timestamptz_Valid = True\<rparr>
               else if sbuf = go_bytes ''-infinity'' then
                 scanner \<lparr>Timestamptz_Time = Time_zero,
                          Timestamptz_InfinityModifier = NegativeInfinity,
                          Timestamptz_Valid = True\<rparr>
               else
                 (let format =
                    (if 9 \<le> length sbuf \<and>
                        (sbuf ! (length sbuf - 9) = of_char CHR ''-'' \<or>
                         sbuf ! (length sbuf - 9) = of_char CHR ''+'')
                     then pgTimestamptzSecondFormat
                     else if 6 \<le> length sbuf \<and>
                        (sbuf ! (length sbuf - 6) = of_char CHR ''-'' \<or>
                         sbuf ! (length sbuf - 6) = of_char CHR ''+'')
                     then pgTimestamptzMinuteFormat
                     else pgTimestamptzHourFormat)
                  in case parse format sbuf of
                       (tim, Some err) \<Rightarrow> (dst, Some err)
                     | (tim, None) \<Rightarrow>
                         scanner \<lparr>Timestamptz_Time = tim, Timestamptz_InfinityModifier = None_IM,
                                  Timestamptz_Valid = True\<rparr>)))"

definition TimestamptzCodec_PlanScan ::
  "(string \<Rightarrow> byte list \<Rightarrow> Time \<times> error option) \<Rightarrow> int16 \<Rightarrow> target \<Rightarrow>
   (bytes \<Rightarrow> target \<Rightarrow> scan_result) option" where
  "TimestamptzCodec_PlanScan parse format tgt =
     (if format = BinaryFormatCode then
        (case as_TimestamptzScanner tgt of
           Some _ \<Rightarrow> Some scanPlanBinaryTimestamptzToTimestamptzScanner_Scan
         | None \<Rightarrow> None)
      else if format = TextFormatCode then
        (case as_TimestamptzScanner tgt of
           Some _ \<Rightarrow> Some (scanPlanTextTimestamptzToTimestamptzScanner_Scan parse)
         | None \<Rightarrow> None)
      else None)"

section \<open>Doubles\<close>

text \<open>
  A double is its bit pattern: sign (bit 63), biased exponent (bits 62 to 52) and fraction
  (bits 51 to 0). The significand is \<open>2 ^ 52 + fraction\<close> for a normal number and the
  fraction for a subnormal one, and the smallest exponent is -1074: so the absolute value
  of a finite double multiplied by \<open>2 ^ 1074\<close> is the natural number
  \<open>float64_magnitude f\<close>, and \<open>float64_scaled f\<close> is the value of the double multiplied
  by \<open>2 ^ 1074\<close>.
\<close>

definition float64_sign :: "uint64 \<Rightarrow> bool" where
  "float64_sign f = (2 ^ 63 \<le> unat f)"

definition float64_exp :: "uint64 \<Rightarrow> nat" where
  "float64_exp f = (unat f div 2 ^ 52) mod 2 ^ 11"

definition float64_frac :: "uint64 \<Rightarrow> nat" where
  "float64_frac f = unat f mod 2 ^ 52"

definition float64_isNaN :: "uint64 \<Rightarrow> bool" where
  "float64_isNaN f = (float64_exp f = 2047 \<and> float64_frac f \<noteq> 0)"

definition float64_isInf :: "uint64 \<Rightarrow> bool" where
  "float64_isInf f = (float64_exp f = 2047 \<and> float64_frac f = 0)"

definition float64_significand :: "uint64 \<Rightarrow> nat" where
  "float64_significand f = (if float64_exp f = 0 then float64_frac f else 2 ^ 52 + float64_frac f)"

definition float64_magnitude :: "uint64 \<Rightarrow> nat" where
  "float64_magnitude f = float64_significand f * 2 ^ (max (float64_exp f) 1 - 1)"

definition float64_scaled :: "uint64 \<Rightarrow> int" where
  "float64_scaled f =
     (if float64_sign f then - int (float64_magnitude f) else int (float64_magnitude f))"

text \<open>The bit pattern with the given sign, biased exponent and fraction.\<close>

definition float64_make :: "bool \<Rightarrow> nat \<Rightarrow> nat \<Rightarrow> uint64" where
  "float64_make s e m = of_nat ((if s then 2 ^ 63 else 0) + (e * 2 ^ 52 + m))"

text \<open>
  The comparison \<open>a == b\<close> of two doubles: a NaN equals nothing, the two zeros are equal,
  and otherwise the bit patterns decide.
\<close>

definition float64_eq :: "uint64 \<Rightarrow> uint64 \<Rightarrow> bool" where
  "float64_eq a b =
     (\<not> float64_isNaN a \<and> \<not> float64_isNaN b \<and>
      (a = b \<or> (unat a mod 2 ^ 63 = 0 \<and> unat b mod 2 ^ 63 = 0)))"

text \<open>
  The conversion \<open>int64(f)\<close> truncates towards zero. \<open>float64_representable f\<close> says
  that \<open>f\<close> is finite and that its truncation is an \<open>int64\<close>. For the other doubles
  (NaN, the infinities, magnitudes from \<open>2 ^ 63\<close> on) Go leaves the result of the
  conversion to the implementation: \<open>ovf\<close> gives it.
\<close>

definition float64_representable :: "uint64 \<Rightarrow> bool" where
  "float64_representable f =
     (float64_exp f \<noteq> 2047 \<and> - (2 ^ 63) \<le> float64_scaled f sdiv 2 ^ 1074 \<and>
      float64_scaled f sdiv 2 ^ 1074 < 2 ^ 63)"

definition int64_of_float64 :: "(uint64 \<Rightarrow> int64) \<Rightarrow> uint64 \<Rightarrow> int64" where
  "int64_of_float64 ovf f =
     (if float64_representable f then word_of_int (float64_scaled f sdiv 2 ^ 1074) else ovf f)"

text \<open>The number of binary digits of a natural number.\<close>

fun bitlen :: "nat \<Rightarrow> nat" where
  "bitlen n = (if n = 0 then 0 else Suc (bitlen (n div 2)))"

text \<open>
  The conversion \<open>float64(i)\<close> rounds to the nearest double, ties to the even significand.
  An integer of at most 53 binary digits is represented exactly.
\<close>

definition float64_of_int64 :: "int64 \<Rightarrow> uint64" where
  "float64_of_int64 i =
     (let a = nat \<bar>sint i\<bar>; k = bitlen a - 1
      in if a = 0 then 0
         else if k \<le> 52 then float64_make (sint i < 0) (k + 1023) (a * 2 ^ (52 - k) - 2 ^ 52)
         else
           (let q = a div 2 ^ (k - 52);
                r = a mod 2 ^ (k - 52);
                half = 2 ^ (k - 53);
                q' = (if half < r \<or> (r = half \<and> odd q) then q + 1 else q)
            in float64_make (sint i < 0) (k + 1023) (q' - 2 ^ 52)))"

section \<open>The float8 codec\<close>

definition Float8_ScanInt64 :: "Float8 \<Rightarrow> Int8 \<Rightarrow> Float8 \<times> error option" where
  "Float8_ScanInt64 f n =
     (\<lparr>Float8_Float = float64_of_int64 (Int8_Int n), Float8_Valid = Int8_Valid n\<rparr>, None)"

definition Float8_Int64Value :: "(uint64 \<Rightarrow> int64) \<Rightarrow> Float8 \<Rightarrow> Int8 \<times> error option" where
  "Float8_Int64Value ovf f =
     (\<lparr>Int8_Int = int64_of_float64 ovf (Float8_Float f), Int8_Valid = Float8_Valid f\<rparr>, None)"

fun as_Float64Valuer :: "go_value \<Rightarrow> (Float8 \<times> error option) option" where
  "as_Float64Valuer (V_Float8 f) = Some (Float64Value f)"
| "as_Float64Valuer _ = None"

fun as_Int64Valuer :: "(uint64 \<Rightarrow> int64) \<Rightarrow> go_value \<Rightarrow> (Int8 \<times> error option) option" where
  "as_Int64Valuer ovf (V_Int8 n) = Some (Int8_Int64Value n)"
| "as_Int64Valuer ovf (V_Float8 f) = Some (Float8_Int64Value ovf f)"
| "as_Int64Valuer ovf _ = None"

fun as_Float64Scanner :: "target \<Rightarrow> (Float8 \<Rightarrow> scan_result) option" where
  "as_Float64Scanner (Ptr_Float8 f) =
     Some (\<lambda>v. case ScanFloat64 f v of (f', err) \<Rightarrow> (Ptr_Float8 f', err))"
| "as_Float64Scanner _ = None"

fun as_Int64Scanner :: "target \<Rightarrow> (Int8 \<Rightarrow> scan_result) option" where
  "as_Int64Scanner (Ptr_Int8 n) =
     Some (\<lambda>v. case Int8_ScanInt64 n v of (n', err) \<Rightarrow> (Ptr_Int8 n', err))"
| "as_Int64Scanner (Ptr_Float8 f) =
     Some (\<lambda>v. case Float8_ScanInt64 f v of (f', err) \<Rightarrow> (Ptr_Float8 f', err))"
| "as_Int64Scanner _ = None"

definition encodePlanFloat8CodecBinaryFloat64_Encode :: "go_value \<Rightarrow> bytes \<Rightarrow> encode_result" where
  "encodePlanFloat8CodecBinaryFloat64_Encode val buf =
     (case val of
        V_float64 n \<Rightarrow> (AppendUint64 buf n, None)
      | _ \<Rightarrow> (None, Some PanicInterfaceConversion))"

text \<open>
  \<open>strconv.FormatFloat(n, 'f', -1, 64)\<close>, \<open>strconv.FormatInt(n, 10)\<close> and
  \<open>strconv.ParseFloat(s, 64)\<close> of Go's standard library are the parameters
  \<open>formatFloat\<close>, \<open>formatInt\<close> and \<open>parseFloat\<close> of the text plans.
\<close>

definition encodePlanTextFloat64_Encode ::
  "(uint64 \<Rightarrow> string) \<Rightarrow> go_value \<Rightarrow> bytes \<Rightarrow> encode_result" where
  "encodePlanTextFloat64_Encode formatFloat val buf =
     (case val of
        V_float64 n \<Rightarrow> (go_append buf (go_bytes (formatFloat n)), None)
      | _ \<Rightarrow> (None, Some PanicInterfaceConversion))"

definition encodePlanFloat8CodecBinaryFloat64Valuer_Encode :: "go_value \<Rightarrow> bytes \<Rightarrow> encode_result" where
  "encodePlanFloat8CodecBinaryFloat64Valuer_Encode val buf =
     (case as_Float64Valuer val of
        None \<Rightarrow> (None, Some PanicInterfaceConversion)
      | Some (n, Some err) \<Rightarrow> (None, Some err)
      | Some (n, None) \<Rightarrow>
          if \<not> Float8_Valid n then (None, None)
          else (AppendUint64 buf (Float8_Float n), None))"

definition encodePlanTextFloat64Valuer_Encode ::
  "(uint64 \<Rightarrow> string) \<Rightarrow> go_value \<Rightarrow> bytes \<Rightarrow> encode_result" where
  "encodePlanTextFloat64Valuer_Encode formatFloat val buf =
     (case as_Float64Valuer val of
        None \<Rightarrow> (None, Some PanicInterfaceConversion)
      | Some (n, Some err) \<Rightarrow> (None, Some err)
      | Some (n, None) \<Rightarrow>
          if \<not> Float8_Valid n then (None, None)
          else (go_append buf (go_bytes (formatFloat (Float8_Float n))), None))"

definition encodePlanFloat8CodecBinaryInt64Valuer_Encode ::
  "(uint64 \<Rightarrow> int64) \<Rightarrow> go_value \<Rightarrow> bytes \<Rightarrow> encode_result" where
  "encodePlanFloat8CodecBinaryInt64Valuer_Encode ovf val buf =
     (case as_Int64Valuer ovf val of
        None \<Rightarrow> (None, Some PanicInterfaceConversion)
      | Some (n, Some err) \<Rightarrow> (None, Some err)
      | Some (n, None) \<Rightarrow>
          if \<not> Int8_Valid n then (None, None)
          else (let f = float64_of_int64 (Int8_Int n) in (AppendUint64 buf f, None)))"

definition encodePlanTextInt64Valuer_Encode ::
  "(uint64 \<Rightarrow> int64) \<Rightarrow> (int64 \<Rightarrow> string) \<Rightarrow> go_value \<Rightarrow> bytes \<Rightarrow> encode_result" where
  "encodePlanTextInt64Valuer_Encode ovf formatInt val buf =
     (case as_Int64Valuer ovf val of
        None \<Rightarrow> (None, Some PanicInterfaceConversion)
      | Some (n, Some err) \<Rightarrow> (None, Some err)
      | Some (n, None) \<Rightarrow>
          if \<not> Int8_Valid n then (None, None)
          else (go_append buf (go_bytes (formatInt (Int8_Int n))), None))"

definition scanPlanBinaryFloat8ToFloat64_Scan :: "bytes \<Rightarrow> target \<Rightarrow> scan_result" where
  "scanPlanBinaryFloat8ToFloat64_Scan src dst =
     (case src of
        None \<Rightarrow> (dst, Some NullNotAllowed)
      | Some bs \<Rightarrow>
          if length bs \<noteq> 8 then (dst, Some (InvalidLength ''float8'' (length bs)))
          else
            (let n = BigEndian_Uint64 bs
             in case dst of
                  Ptr_float64 f \<Rightarrow> (Ptr_float64 n, None)
                | _ \<Rightarrow> (dst, Some PanicInterfaceConversion)))"

definition scanPlanBinaryFloat8ToFloat64Scanner_Scan :: "bytes \<Rightarrow> target \<Rightarrow> scan_result" where
  "scanPlanBinaryFloat8ToFloat64Scanner_Scan src dst =
     (case as_Float64Scanner dst of
        None \<Rightarrow> (dst, Some PanicInterfaceConversion)
      | Some s \<Rightarrow>
          (case src of
             None \<Rightarrow> s Float8_zero
           | Some bs \<Rightarrow>
               if length bs \<noteq> 8 then (dst, Some (InvalidLength ''float8'' (length bs)))
               else
                 (let n = BigEndian_Uint64 bs
                  in s \<lparr>Float8_Float = n, Float8_Valid = True\<rparr>)))"

definition scanPlanBinaryFloat8ToInt64Scanner_Scan ::
  "(uint64 \<Rightarrow> int64) \<Rightarrow> bytes \<Rightarrow> target \<Rightarrow> scan_result" where
  "scanPlanBinaryFloat8ToInt64Scanner_Scan ovf src dst =
     (case as_Int64Scanner dst of
        None \<Rightarrow> (dst, Some PanicInterfaceConversion)
      | Some s \<Rightarrow>
          (case src of
             None \<Rightarrow> s Int8_zero
           | Some bs \<Rightarrow>
               if length bs \<noteq> 8 then (dst, Some (InvalidLength ''float8'' (length bs)))
               else
                 (let ui64 = BigEndian_Uint64 bs;
                      f64 = ui64;
                      i64 = int64_of_float64 ovf f64
                  in if \<not> float64_eq f64 (float64_of_int64 i64)
                     then (dst, Some (LossyConversion f64))
                     else s \<lparr>Int8_Int = i64, Int8_Valid = True\<rparr>)))"

definition scanPlanTextAnyToFloat64_Scan ::
  "(byte list \<Rightarrow> uint64 \<times> error option) \<Rightarrow> bytes \<Rightarrow> target \<Rightarrow> scan_result" where
  "scanPlanTextAnyToFloat64_Scan parseFloat src dst =
     (case src of
        None \<Rightarrow> (dst, Some NullNotAllowed)
      | Some bs \<Rightarrow>
          (case parseFloat bs of
             (n, Some err) \<Rightarrow> (dst, Some err)
           | (n, None) \<Rightarrow>
               (case dst of
                  Ptr_float64 f \<Rightarrow> (Ptr_float64 n, None)
                | _ \<Rightarrow> (dst, Some PanicInterfaceConversion))))"

definition scanPlanTextAnyToFloat64Scanner_Scan ::
  "(byte list \<Rightarrow> uint64 \<times> error option) \<Rightarrow> bytes \<Rightarrow> target \<Rightarrow> scan_result" where
  "scanPlanTextAnyToFloat64Scanner_Scan parseFloat src dst =
     (case as_Float64Scanner dst of
        None \<Rightarrow> (dst, Some PanicInterfaceConversion)
      | Some s \<Rightarrow>
          (case src of
             None \<Rightarrow> s Float8_zero
           | Some bs \<Rightarrow>
               (case parseFloat bs of
                  (n, Some err) \<Rightarrow> (dst, Some err)
                | (n, None) \<Rightarrow> s \<lparr>Float8_Float = n, Float8_Valid = True\<rparr>)))"

definition Float8Codec_PlanEncode ::
  "(uint64 \<Rightarrow> int64) \<Rightarrow> (uint64 \<Rightarrow> string) \<Rightarrow> (int64 \<Rightarrow> string) \<Rightarrow> int16 \<Rightarrow> go_value \<Rightarrow>
   (go_value \<Rightarrow> bytes \<Rightarrow> encode_result) option" where
  "Float8Codec_PlanEncode ovf formatFloat formatInt format val =
     (if format = BinaryFormatCode then
        (case val of
           V_float64 _ \<Rightarrow> Some encodePlanFloat8CodecBinaryFloat64_Encode
         | _ \<Rightarrow>
            (case as_Float64Valuer val of
               Some _ \<Rightarrow> Some encodePlanFloat8CodecBinaryFloat64Valuer_Encode
             | None \<Rightarrow>
                (case as_Int64Valuer ovf val of
                   Some _ \<Rightarrow> Some (encodePlanFloat8CodecBinaryInt64Valuer_Encode ovf)
                 | None \<Rightarrow> None)))
      else if format = TextFormatCode then
        (case val of
           V_float64 _ \<Rightarrow> Some (encodePlanTextFloat64_Encode formatFloat)
         | _ \<Rightarrow>
            (case as_Float64Valuer val of
               Some _ \<Rightarrow> Some (encodePlanTextFloat64Valuer_Encode formatFloat)
             | None \<Rightarrow>
                (case as_Int64Valuer ovf val of
                   Some _ \<Rightarrow> Some (encodePlanTextInt64Valuer_Encode ovf formatInt)
                 | None \<Rightarrow> None)))
      else None)"

section \<open>The extended-query parameter builder\<close>

text \<open>
  The builder's four slices, by content: \<open>paramValueBytes\<close> is compared with nil in the
  source and is a \<open>bytes\<close>; each parameter value is a \<open>bytes\<close> too (nil is SQL NULL).
\<close>

type_synonym uint32 = "32 word"

record extendedQueryBuilder =
  paramValues :: "bytes list"
  paramValueBytes :: bytes
  paramFormats :: "int16 list"
  resultFormats :: "int16 list"

text \<open>
  The \<open>arg interface{}\<close> of the builder, as far as the builder looks at it: the nil
  interface, a \<open>string\<close>, a pointer (nil, or to another value), or any other value. Of the
  other values the builder only asks whether \<open>stripNamedType\<close> converts them; \<open>'v\<close> is
  whatever else they carry.

  Modelled from the spec: \<open>stripNamedType\<close> is not among the sources. By the spec it strips
  one named-wrapper layer: a value of a named type over a basic kind is converted to the
  value of the basic type (a named string type to a \<open>string\<close>), and every other value is
  left alone.
\<close>

datatype 'v arg =
    A_nil
  | A_string string
  | A_ptr "'v arg option"
  | A_named_string string
  | A_named 'v
  | A_other 'v

fun stripNamedType :: "'v arg \<Rightarrow> 'v arg option" where
  "stripNamedType (A_named_string s) = Some (A_string s)"
| "stripNamedType (A_named v) = Some (A_other v)"
| "stripNamedType _ = None"

text \<open>
  The registry \<open>*pgtype.Map\<close> is not among the sources: the builder is given its two
  methods. \<open>Map_TypeForOID m oid\<close> is the \<open>ok\<close> of \<open>m.TypeForOID(oid)\<close> and
  \<open>Map_Encode m oid formatCode arg buf\<close> is \<open>m.Encode(oid, formatCode, arg, buf)\<close>.
  \<open>chooseParameterFormatCode\<close> is a parameter of \<open>AppendParam\<close> for the same reason.
\<close>

record 'v Map =
  Map_TypeForOID :: "uint32 \<Rightarrow> bool"
  Map_Encode :: "uint32 \<Rightarrow> int16 \<Rightarrow> 'v arg \<Rightarrow> bytes \<Rightarrow> encode_result"

fun arg_rank :: "'v arg \<Rightarrow> nat" where
  "arg_rank (A_ptr (Some a)) = Suc (arg_rank a)"
| "arg_rank (A_named_string s) = 1"
| "arg_rank (A_named v) = 1"
| "arg_rank _ = 0"

text \<open>\<open>if eqb.paramValueBytes == nil { eqb.paramValueBytes = make([]byte, 0, 128) }\<close>\<close>

definition ensure_paramValueBytes :: "extendedQueryBuilder \<Rightarrow> extendedQueryBuilder" where
  "ensure_paramValueBytes eqb =
     (if paramValueBytes eqb = None then eqb\<lparr>paramValueBytes := Some []\<rparr> else eqb)"

text \<open>
  The branch of \<open>encodeExtendedParamValue\<close> taken when a codec is registered for the OID:
  the registry encodes into the shared buffer, and the payload is the part of the new
  buffer from the old length on. A nil buffer from the registry is SQL NULL.
\<close>

definition encode_registered ::
  "'v Map \<Rightarrow> uint32 \<Rightarrow> int16 \<Rightarrow> 'v arg \<Rightarrow> extendedQueryBuilder \<Rightarrow> nat \<Rightarrow>
   extendedQueryBuilder \<times> bytes \<times> error option" where
  "encode_registered m oid formatCode a eqb pos =
     (case Map_Encode m oid formatCode a (paramValueBytes eqb) of
        (buf, Some err) \<Rightarrow> (eqb, None, Some err)
      | (None, None) \<Rightarrow> (eqb, None, None)
      | (Some b, None) \<Rightarrow>
          if pos \<le> length b
          then (eqb\<lparr>paramValueBytes := Some b\<rparr>, Some (drop pos b), None)
          else (eqb\<lparr>paramValueBytes := Some b\<rparr>, None, Some PanicSliceBounds))"

text \<open>
  \<open>encodeExtendedParamValue\<close> returns the builder after the call, the payload and the
  error. The equations follow the order of the source: nil interface, nil pointer, then
  the buffer is made non-nil, then \<open>string\<close>, pointer, registered codec, named type.
\<close>

function encodeExtendedParamValue ::
  "'v Map \<Rightarrow> uint32 \<Rightarrow> int16 \<Rightarrow> 'v arg \<Rightarrow> extendedQueryBuilder \<Rightarrow>
   extendedQueryBuilder \<times> bytes \<times> error option" where
  "encodeExtendedParamValue m oid formatCode A_nil eqb = (eqb, None, None)"
| "encodeExtendedParamValue m oid formatCode (A_ptr None) eqb = (eqb, None, None)"
| "encodeExtendedParamValue m oid formatCode (A_string s) eqb =
     (ensure_paramValueBytes eqb, Some (go_bytes s), None)"
| "encodeExtendedParamValue m oid formatCode (A_ptr (Some a)) eqb =
     encodeExtendedParamValue m oid formatCode a (ensure_paramValueBytes eqb)"
| "encodeExtendedParamValue m oid formatCode (A_named_string s) eqb =
     (let eqb1 = ensure_paramValueBytes eqb;
          pos = go_len (paramValueBytes eqb1)
      in if Map_TypeForOID m oid
         then encode_registered m oid formatCode (A_named_string s) eqb1 pos
         else
           (case stripNamedType (A_named_string s) of
              Some strippedArg \<Rightarrow> encodeExtendedParamValue m oid formatCode strippedArg eqb1
            | None \<Rightarrow> (eqb1, None, Some SerializationError)))"
| "encodeExtendedParamValue m oid formatCode (A_named v) eqb =
     (let eqb1 = ensure_paramValueBytes eqb;
          pos = go_len (paramValueBytes eqb1)
      in if Map_TypeForOID m oid
         then encode_registered m oid formatCode (A_named v) eqb1 pos
         else
           (case stripNamedType (A_named v) of
              Some strippedArg \<Rightarrow> encodeExtendedParamValue m oid formatCode strippedArg eqb1
            | None \<Rightarrow> (eqb1, None, Some SerializationError)))"
| "encodeExtendedParamValue m oid formatCode (A_other v) eqb =
     (let eqb1 = ensure_paramValueBytes eqb;
          pos = go_len (paramValueBytes eqb1)
      in if Map_TypeForOID m oid
         then encode_registered m oid formatCode (A_other v) eqb1 pos
         else
           (case stripNamedType (A_other v) of
              Some strippedArg \<Rightarrow> encodeExtendedParamValue m oid formatCode strippedArg eqb1
            | None \<Rightarrow> (eqb1, None, Some SerializationError)))"
  by pat_completeness auto
termination
  by (relation "measure (\<lambda>(m, oid, formatCode, a, eqb). arg_rank a)") auto

definition AppendParam ::
  "('v Map \<Rightarrow> uint32 \<Rightarrow> 'v arg \<Rightarrow> int16) \<Rightarrow> 'v Map \<Rightarrow> uint32 \<Rightarrow> 'v arg \<Rightarrow> extendedQueryBuilder \<Rightarrow>
   extendedQueryBuilder \<times> error option" where
  "AppendParam chooseParameterFormatCode m oid a eqb =
     (let f = chooseParameterFormatCode m oid a;
          eqb1 = eqb\<lparr>paramFormats := paramFormats eqb @ [f]\<rparr>
      in case encodeExtendedParamValue m oid f a eqb1 of
           (eqb2, v, Some err) \<Rightarrow> (eqb2, Some err)
         | (eqb2, v, None) \<Rightarrow> (eqb2\<lparr>paramValues := paramValues eqb2 @ [v]\<rparr>, None))"

definition AppendResultFormat :: "int16 \<Rightarrow> extendedQueryBuilder \<Rightarrow> extendedQueryBuilder" where
  "AppendResultFormat f eqb = eqb\<lparr>resultFormats := resultFormats eqb @ [f]\<rparr>"

subsection \<open>Reset, on slice headers\<close>

text \<open>
  \<open>Reset\<close> reads and writes only the headers of the four slices, never their elements.
  A slice header is the backing array (\<open>None\<close> for the nil slice, otherwise the identity
  of the allocation), the length and the capacity. \<open>s[0:0]\<close> keeps array and capacity;
  \<open>make([]T, 0, n)\<close> takes the next unused allocation, which the heap counter \<open>h\<close>
  names.
\<close>

record slice_header =
  hdr_array :: "nat option"
  hdr_len :: nat
  hdr_cap :: nat

record extendedQueryBuilder_headers =
  paramValues_hdr :: slice_header
  paramValueBytes_hdr :: slice_header
  paramFormats_hdr :: slice_header
  resultFormats_hdr :: slice_header

definition reslice_0_0 :: "slice_header \<Rightarrow> slice_header" where
  "reslice_0_0 s = s\<lparr>hdr_len := 0\<rparr>"

definition make_slice :: "nat \<Rightarrow> nat \<Rightarrow> nat \<times> slice_header" where
  "make_slice h n = (Suc h, \<lparr>hdr_array = Some h, hdr_len = 0, hdr_cap = n\<rparr>)"

text \<open>\<open>if cap(s) > n { s = make([]T, 0, n) }\<close>\<close>

definition shrink_to :: "nat \<Rightarrow> nat \<times> slice_header \<Rightarrow> nat \<times> slice_header" where
  "shrink_to n hs = (case hs of (h, s) \<Rightarrow> if hdr_cap s > n then make_slice h n else (h, s))"

definition Reset :: "nat \<Rightarrow> extendedQueryBuilder_headers \<Rightarrow> nat \<times> extendedQueryBuilder_headers" where
  "Reset h eqb =
     (let pv = reslice_0_0 (paramValues_hdr eqb);
          pvb = reslice_0_0 (paramValueBytes_hdr eqb);
          pf = reslice_0_0 (paramFormats_hdr eqb);
          rf = reslice_0_0 (resultFormats_hdr eqb);
          (h1, pv1) = shrink_to 64 (h, pv);
          (h2, pvb1) = shrink_to 256 (h1, pvb);
          (h3, pf1) = shrink_to 64 (h2, pf);
          (h4, rf1) = shrink_to 64 (h3, rf)
      in (h4, \<lparr>paramValues_hdr = pv1, paramValueBytes_hdr = pvb1,
                paramFormats_hdr = pf1, resultFormats_hdr = rf1\<rparr>))"

section \<open>Notions used in the statements\<close>

text \<open>
  The payload an encode plan produced: the part of the new buffer after the old content
  (the caller computes it from the lengths), or nil when the plan returned nil.
\<close>

definition payload :: "bytes \<Rightarrow> bytes \<Rightarrow> bytes" where
  "payload buf newBuf = (case newBuf of None \<Rightarrow> None | Some nb \<Rightarrow> Some (drop (go_len buf) nb))"

text \<open>The content of a slice; the nil slice has none.\<close>

fun go_contents :: "bytes \<Rightarrow> byte list" where
  "go_contents None = []"
| "go_contents (Some b) = b"

text \<open>The errors that stand for a panic rather than for a returned error.\<close>

fun is_panic :: "error \<Rightarrow> bool" where
  "is_panic PanicInterfaceConversion = True"
| "is_panic PanicSliceBounds = True"
| "is_panic _ = False"

text \<open>
  Concrete inputs for the examples: a registry with no codec at all, a registry whose codec
  for every OID appends the byte 1, a format chooser that always answers text, the builder
  before its first use, and the conversion of an unrepresentable double on amd64 (the
  instruction gives the smallest \<open>int64\<close>).
\<close>

definition no_codec_Map :: "unit Map" where
  "no_codec_Map =
     \<lparr>Map_TypeForOID = (\<lambda>oid. False),
      Map_Encode = (\<lambda>oid formatCode a buf. (None, Some (OtherError ''no codec'')))\<rparr>"


definition choose_text :: "unit Map \<Rightarrow> uint32 \<Rightarrow> unit arg \<Rightarrow> int16" where
  "choose_text m oid a = TextFormatCode"

definition empty_builder :: extendedQueryBuilder where
  "empty_builder = \<lparr>paramValues = [], paramValueBytes = None, paramFormats = [], resultFormats = []\<rparr>"

text \<open>A builder that already holds one binary parameter and one result format.\<close>

definition used_builder :: extendedQueryBuilder where
  "used_builder =
     \<lparr>paramValues = [Some [1]], paramValueBytes = Some [1], paramFormats = [BinaryFormatCode],
      resultFormats = [TextFormatCode]\<rparr>"

definition amd64_ovf :: "uint64 \<Rightarrow> int64" where
  "amd64_ovf f = - 9223372036854775808"

text \<open>
  A conversion that saturates instead, as the arm64 instruction does: zero for a NaN, the
  nearest end of the \<open>int64\<close> range for every other unrepresentable double.
\<close>

definition saturating_ovf :: "uint64 \<Rightarrow> int64" where
  "saturating_ovf f =
     (if float64_isNaN f then 0
      else if float64_sign f then - 9223372036854775808 else 9223372036854775807)"

text \<open>
  Two timestamptz wrappers are the same SQL value when both are NULL, or both are valid
  with the same infinity modifier and, without modifier, the same instant.
\<close>

definition Timestamptz_equal :: "Timestamptz \<Rightarrow> Timestamptz \<Rightarrow> bool" where
  "Timestamptz_equal a b =
     (Timestamptz_Valid a = Timestamptz_Valid b \<and>
      (Timestamptz_Valid a \<longrightarrow>
         Timestamptz_InfinityModifier a = Timestamptz_InfinityModifier b \<and>
         (Timestamptz_InfinityModifier a = None_IM \<longrightarrow> Timestamptz_Time a = Timestamptz_Time b)))"

text \<open>
  The microseconds from 2000-01-01 UTC to an instant, as an unbounded integer, and the
  values in range for the binary format: a valid wrapper without modifier is in range when
  its nanoseconds are those of a \<open>time.Time\<close> and its microsecond count fits an
  \<open>int64\<close> strictly between the two sentinels. NULL and the infinities are always in range.
\<close>

definition microsecSinceY2K_of :: "Time \<Rightarrow> int" where
  "microsecSinceY2K_of t =
     sint (Time_Unix t) * 1000000 + sint (Time_Nanosecond t) div 1000 - 946684800000000"

definition Timestamptz_in_range :: "Timestamptz \<Rightarrow> bool" where
  "Timestamptz_in_range v =
     (Timestamptz_Valid v \<and> Timestamptz_InfinityModifier v = None_IM \<longrightarrow>
        0 \<le> sint (Time_Nanosecond (Timestamptz_Time v)) \<and>
        sint (Time_Nanosecond (Timestamptz_Time v)) < 1000000000 \<and>
        - (2 ^ 63) < microsecSinceY2K_of (Timestamptz_Time v) \<and>
        microsecSinceY2K_of (Timestamptz_Time v) < 2 ^ 63 - 1)"

text \<open>The wrapper with its time cut to whole microseconds.\<close>

definition truncate_microsecond :: "Timestamptz \<Rightarrow> Timestamptz" where
  "truncate_microsecond v =
     v\<lparr>Timestamptz_Time :=
         (Timestamptz_Time v)\<lparr>Time_Nanosecond :=
            word_of_int (sint (Time_Nanosecond (Timestamptz_Time v)) div 1000 * 1000)\<rparr>\<rparr>"

text \<open>
  \<open>scan_binary(encode_binary(v))\<close>: the binary plan encodes into \<open>buf\<close>, and the payload
  (nil when the plan returned nil) is scanned into a target that holds \<open>old\<close>.
\<close>

definition timestamptz_binary_roundtrip :: "Timestamptz \<Rightarrow> bytes \<Rightarrow> Timestamptz \<Rightarrow> scan_result" where
  "timestamptz_binary_roundtrip v buf old =
     (case encodePlanTimestamptzCodecBinary_Encode (V_Timestamptz v) buf of
        (newBuf, Some err) \<Rightarrow> (Ptr_Timestamptz old, Some err)
      | (newBuf, None) \<Rightarrow>
          scanPlanBinaryTimestamptzToTimestamptzScanner_Scan (payload buf newBuf)
            (Ptr_Timestamptz old))"

text \<open>The instant one nanosecond after 2000-01-01 00:00:00 UTC, as a valid wrapper.\<close>

definition one_nanosecond_past_Y2K :: Timestamptz where
  "one_nanosecond_past_Y2K =
     \<lparr>Timestamptz_Time = \<lparr>Time_Unix = 946684800, Time_Nanosecond = 1\<rparr>,
      Timestamptz_InfinityModifier = None_IM, Timestamptz_Valid = True\<rparr>"

declare bitlen.simps [simp del]

section \<open>Properties of the builder\<close>

text \<open>
  Claim C8. After \<open>Reset\<close> the four slices have length zero; the capacity of
  \<open>paramValues\<close>, \<open>paramFormats\<close> and \<open>resultFormats\<close> is at most 64 and that of
  \<open>paramValueBytes\<close> at most 256; and a slice whose capacity was within its threshold
  before the call keeps its backing array and its capacity.
\<close>

theorem Reset_lengths_capacities:
  assumes "Reset h eqb = (h', eqb')"
  shows "hdr_len (paramValues_hdr eqb') = 0 \<and> hdr_len (paramValueBytes_hdr eqb') = 0
     \<and> hdr_len (paramFormats_hdr eqb') = 0 \<and> hdr_len (resultFormats_hdr eqb') = 0
     \<and> hdr_cap (paramValues_hdr eqb') \<le> 64 \<and> hdr_cap (paramFormats_hdr eqb') \<le> 64
     \<and> hdr_cap (resultFormats_hdr eqb') \<le> 64 \<and> hdr_cap (paramValueBytes_hdr eqb') \<le> 256
     \<and> (hdr_cap (paramValues_hdr eqb) \<le> 64 \<longrightarrow>
          hdr_array (paramValues_hdr eqb') = hdr_array (paramValues_hdr eqb)
          \<and> hdr_cap (paramValues_hdr eqb') = hdr_cap (paramValues_hdr eqb))
     \<and> (hdr_cap (paramValueBytes_hdr eqb) \<le> 256 \<longrightarrow>
          hdr_array (paramValueBytes_hdr eqb') = hdr_array (paramValueBytes_hdr eqb)
          \<and> hdr_cap (paramValueBytes_hdr eqb') = hdr_cap (paramValueBytes_hdr eqb))
     \<and> (hdr_cap (paramFormats_hdr eqb) \<le> 64 \<longrightarrow>
          hdr_array (paramFormats_hdr eqb') = hdr_array (paramFormats_hdr eqb)
          \<and> hdr_cap (paramFormats_hdr eqb') = hdr_cap (paramFormats_hdr eqb))
     \<and> (hdr_cap (resultFormats_hdr eqb) \<le> 64 \<longrightarrow>
          hdr_array (resultFormats_hdr eqb') = hdr_array (resultFormats_hdr eqb)
          \<and> hdr_cap (resultFormats_hdr eqb') = hdr_cap (resultFormats_hdr eqb))"
  using assms
  by (auto simp: Reset_def Let_def shrink_to_def make_slice_def reslice_0_0_def
      split: if_splits prod.splits)

text \<open>
  A builder that grew two of its slices beyond the threshold: both are replaced by new
  allocations of capacity 64, the byte buffer of capacity 128 and the nil slice are kept.
\<close>

theorem Reset_lengths_capacities_witness:
  "Reset 7
     \<lparr>paramValues_hdr = \<lparr>hdr_array = Some 1, hdr_len = 70, hdr_cap = 128\<rparr>,
      paramValueBytes_hdr = \<lparr>hdr_array = Some 2, hdr_len = 100, hdr_cap = 128\<rparr>,
      paramFormats_hdr = \<lparr>hdr_array = Some 3, hdr_len = 70, hdr_cap = 128\<rparr>,
      resultFormats_hdr = \<lparr>hdr_array = None, hdr_len = 0, hdr_cap = 0\<rparr>\<rparr>
   = (9,
     \<lparr>paramValues_hdr = \<lparr>hdr_array = Some 7, hdr_len = 0, hdr_cap = 64\<rparr>,
      paramValueBytes_hdr = \<lparr>hdr_array = Some 2, hdr_len = 0, hdr_cap = 128\<rparr>,
      paramFormats_hdr = \<lparr>hdr_array = Some 8, hdr_len = 0, hdr_cap = 64\<rparr>,
      resultFormats_hdr = \<lparr>hdr_array = None, hdr_len = 0, hdr_cap = 0\<rparr>\<rparr>)
   \<and> hdr_cap \<lparr>hdr_array = Some 2, hdr_len = 100, hdr_cap = 128\<rparr> \<le> 256
   \<and> hdr_array \<lparr>hdr_array = Some 2, hdr_len = 0, hdr_cap = 128\<rparr> = Some 2"
proof -
  have r: "Reset 7
     \<lparr>paramValues_hdr = \<lparr>hdr_array = Some 1, hdr_len = 70, hdr_cap = 128\<rparr>,
      paramValueBytes_hdr = \<lparr>hdr_array = Some 2, hdr_len = 100, hdr_cap = 128\<rparr>,
      paramFormats_hdr = \<lparr>hdr_array = Some 3, hdr_len = 70, hdr_cap = 128\<rparr>,
      resultFormats_hdr = \<lparr>hdr_array = None, hdr_len = 0, hdr_cap = 0\<rparr>\<rparr>
   = (9,
     \<lparr>paramValues_hdr = \<lparr>hdr_array = Some 7, hdr_len = 0, hdr_cap = 64\<rparr>,
      paramValueBytes_hdr = \<lparr>hdr_array = Some 2, hdr_len = 0, hdr_cap = 128\<rparr>,
      paramFormats_hdr = \<lparr>hdr_array = Some 8, hdr_len = 0, hdr_cap = 64\<rparr>,
      resultFormats_hdr = \<lparr>hdr_array = None, hdr_len = 0, hdr_cap = 0\<rparr>\<rparr>)"
    by (simp add: Reset_def shrink_to_def make_slice_def reslice_0_0_def eval_nat_numeral)
  from Reset_lengths_capacities [OF r] r show ?thesis by simp
qed

text \<open>
  What \<open>encodeExtendedParamValue\<close> leaves alone: it never touches the three other slices,
  and when it returns an error the content of the byte buffer is the old one.
\<close>

lemma ensure_fields [simp]:
  "paramValues (ensure_paramValueBytes eqb) = paramValues eqb"
  "paramFormats (ensure_paramValueBytes eqb) = paramFormats eqb"
  "resultFormats (ensure_paramValueBytes eqb) = resultFormats eqb"
  "go_contents (paramValueBytes (ensure_paramValueBytes eqb)) = go_contents (paramValueBytes eqb)"
  "paramValueBytes (ensure_paramValueBytes eqb) \<noteq> None"
  by (auto simp: ensure_paramValueBytes_def)

lemma encode_registered_formats:
  assumes "encode_registered m oid fc a eqb pos = (eqb', v, e)"
  shows "paramValues eqb' = paramValues eqb \<and> paramFormats eqb' = paramFormats eqb
       \<and> resultFormats eqb' = resultFormats eqb"
  using assms by (auto simp: encode_registered_def split: prod.splits option.splits if_splits)

lemma encode_registered_error:
  assumes "encode_registered m oid fc a eqb pos = (eqb', v, Some err)" "\<not> is_panic err"
  shows "eqb' = eqb \<and> v = None"
  using assms by (auto simp: encode_registered_def split: prod.splits option.splits if_splits)

lemma encodeExtendedParamValue_formats:
  "encodeExtendedParamValue m oid fc a eqb = (eqb', v, e) \<Longrightarrow>
     paramValues eqb' = paramValues eqb \<and> paramFormats eqb' = paramFormats eqb
     \<and> resultFormats eqb' = resultFormats eqb"
proof (induction m oid fc a eqb arbitrary: eqb' v e rule: encodeExtendedParamValue.induct)
  case (1 m oid formatCode eqb)
  then show ?case by simp
next
  case (2 m oid formatCode eqb)
  then show ?case by simp
next
  case (3 m oid formatCode s eqb)
  then show ?case by auto
next
  case (4 m oid formatCode a eqb)
  from "4.prems" have "encodeExtendedParamValue m oid formatCode a (ensure_paramValueBytes eqb) = (eqb', v, e)"
    by simp
  from "4.IH" [OF this] show ?case by simp
next
  case (5 m oid formatCode s eqb)
  show ?case
  proof (cases "Map_TypeForOID m oid")
    case True
    with "5.prems" show ?thesis by (auto simp: Let_def dest!: encode_registered_formats)
  next
    case False
    with "5.prems" show ?thesis by (auto simp: Let_def)
  qed
next
  case (6 m oid formatCode x eqb)
  show ?case
  proof (cases "Map_TypeForOID m oid")
    case True
    with "6.prems" show ?thesis by (auto simp: Let_def dest!: encode_registered_formats)
  next
    case False
    with "6.prems" show ?thesis by (auto simp: Let_def)
  qed
next
  case (7 m oid formatCode x eqb)
  show ?case
  proof (cases "Map_TypeForOID m oid")
    case True
    with "7.prems" show ?thesis by (auto simp: Let_def dest!: encode_registered_formats)
  next
    case False
    with "7.prems" show ?thesis by (auto simp: Let_def)
  qed
qed

lemma encodeExtendedParamValue_error:
  "encodeExtendedParamValue m oid fc a eqb = (eqb', v, Some err) \<Longrightarrow> \<not> is_panic err \<Longrightarrow>
     go_contents (paramValueBytes eqb') = go_contents (paramValueBytes eqb) \<and> v = None"
proof (induction m oid fc a eqb arbitrary: eqb' v rule: encodeExtendedParamValue.induct)
  case (1 m oid formatCode eqb)
  then show ?case by simp
next
  case (2 m oid formatCode eqb)
  then show ?case by simp
next
  case (3 m oid formatCode s eqb)
  then show ?case by auto
next
  case (4 m oid formatCode a eqb)
  from "4.prems" have "encodeExtendedParamValue m oid formatCode a (ensure_paramValueBytes eqb) = (eqb', v, Some err)"
    by simp
  from "4.IH" [OF this "4.prems"(2)] show ?case by simp
next
  case (5 m oid formatCode s eqb)
  show ?case
  proof (cases "Map_TypeForOID m oid")
    case True
    with "5.prems" show ?thesis by (auto simp: Let_def dest!: encode_registered_error)
  next
    case False
    with "5.prems" show ?thesis by (auto simp: Let_def)
  qed
next
  case (6 m oid formatCode x eqb)
  show ?case
  proof (cases "Map_TypeForOID m oid")
    case True
    with "6.prems" show ?thesis by (auto simp: Let_def dest!: encode_registered_error)
  next
    case False
    with "6.prems" show ?thesis by (auto simp: Let_def)
  qed
next
  case (7 m oid formatCode x eqb)
  show ?case
  proof (cases "Map_TypeForOID m oid")
    case True
    with "7.prems" show ?thesis by (auto simp: Let_def dest!: encode_registered_error)
  next
    case False
    with "7.prems" show ?thesis by (auto simp: Let_def)
  qed
qed

text \<open>
  The format codes play no part in the encoding: with other format codes in the builder
  the payload and the error are the same, and the builder differs in the format codes only.
\<close>

lemma ensure_paramFormats_update:
  "ensure_paramValueBytes (eqb\<lparr>paramFormats := pf\<rparr>) =
     (ensure_paramValueBytes eqb)\<lparr>paramFormats := pf\<rparr>"
  by (simp add: ensure_paramValueBytes_def)

lemma encode_registered_paramFormats_update:
  "encode_registered m oid fc a (eqb\<lparr>paramFormats := pf\<rparr>) pos =
     (case encode_registered m oid fc a eqb pos of
        (eqb', v, e) \<Rightarrow> (eqb'\<lparr>paramFormats := pf\<rparr>, v, e))"
  by (simp add: encode_registered_def split: prod.splits option.splits)

lemma encodeExtendedParamValue_paramFormats_update:
  "encodeExtendedParamValue m oid fc a (eqb\<lparr>paramFormats := pf\<rparr>) =
     (case encodeExtendedParamValue m oid fc a eqb of
        (eqb', v, e) \<Rightarrow> (eqb'\<lparr>paramFormats := pf\<rparr>, v, e))"
proof (induction m oid fc a eqb rule: encodeExtendedParamValue.induct)
  case (1 m oid formatCode eqb)
  show ?case by simp
next
  case (2 m oid formatCode eqb)
  show ?case by simp
next
  case (3 m oid formatCode s eqb)
  show ?case by (simp add: ensure_paramFormats_update)
next
  case (4 m oid formatCode a eqb)
  show ?case by (simp add: ensure_paramFormats_update "4.IH")
next
  case (5 m oid formatCode s eqb)
  show ?case
    by (simp add: ensure_paramFormats_update encode_registered_paramFormats_update Let_def)
next
  case (6 m oid formatCode x eqb)
  show ?case
    by (simp add: ensure_paramFormats_update encode_registered_paramFormats_update Let_def)
next
  case (7 m oid formatCode x eqb)
  show ?case
    by (simp add: ensure_paramFormats_update encode_registered_paramFormats_update Let_def)
qed

text \<open>
  Claim C2, as the code has it. Whenever the encoding of the argument fails with an error,
  \<open>AppendParam\<close> returns that error; \<open>paramValues\<close> and \<open>resultFormats\<close> are as
  before and the byte buffer has its old content, but \<open>paramFormats\<close> has already
  received the format code chosen for the parameter and is one longer than before.
\<close>

theorem AppendParam_error_state:
  assumes enc: "encodeExtendedParamValue m oid (cpfc m oid a) a eqb = (eqb2, v, Some err)"
    and np: "\<not> is_panic err"
  shows "AppendParam cpfc m oid a eqb =
           (eqb2\<lparr>paramFormats := paramFormats eqb @ [cpfc m oid a]\<rparr>, Some err)
       \<and> paramFormats (fst (AppendParam cpfc m oid a eqb)) = paramFormats eqb @ [cpfc m oid a]
       \<and> paramValues (fst (AppendParam cpfc m oid a eqb)) = paramValues eqb
       \<and> resultFormats (fst (AppendParam cpfc m oid a eqb)) = resultFormats eqb
       \<and> go_contents (paramValueBytes (fst (AppendParam cpfc m oid a eqb))) =
           go_contents (paramValueBytes eqb)"
proof -
  have r: "AppendParam cpfc m oid a eqb =
           (eqb2\<lparr>paramFormats := paramFormats eqb @ [cpfc m oid a]\<rparr>, Some err)"
    by (simp add: AppendParam_def Let_def encodeExtendedParamValue_paramFormats_update enc)
  from encodeExtendedParamValue_formats [OF enc] encodeExtendedParamValue_error [OF enc np]
  show ?thesis unfolding r by simp
qed

text \<open>
  A value that no codec and no conversion handles, appended to a builder that holds a
  parameter already: the old parameter, its bytes and the result format stay, and a second
  format code is there.
\<close>

theorem AppendParam_error_state_witness:
  "encodeExtendedParamValue no_codec_Map 16 (choose_text no_codec_Map 16 (A_other ())) (A_other ())
       used_builder = (used_builder, None, Some SerializationError)
   \<and> \<not> is_panic SerializationError
   \<and> AppendParam choose_text no_codec_Map 16 (A_other ()) used_builder =
       (\<lparr>paramValues = [Some [1]], paramValueBytes = Some [1],
         paramFormats = [BinaryFormatCode, TextFormatCode], resultFormats = [TextFormatCode]\<rparr>,
        Some SerializationError)"
proof -
  have e: "encodeExtendedParamValue no_codec_Map 16 (choose_text no_codec_Map 16 (A_other ()))
       (A_other ()) used_builder = (used_builder, None, Some SerializationError)"
    by (simp add: no_codec_Map_def used_builder_def ensure_paramValueBytes_def)
  have p: "\<not> is_panic SerializationError" by simp
  from AppendParam_error_state [where cpfc = choose_text and m = no_codec_Map, OF e p] e p show ?thesis
    by (simp add: used_builder_def choose_text_def)
qed

text \<open>
  Claim C2 as stated fails for the same value and a fresh builder: the call returns the
  serialization error and \<open>paramFormats\<close> has grown from length 0 to length 1.
\<close>

theorem AppendParam_error_counterexample:
  "AppendParam choose_text no_codec_Map 16 (A_other ()) empty_builder =
     (\<lparr>paramValues = [], paramValueBytes = Some [], paramFormats = [TextFormatCode],
       resultFormats = []\<rparr>, Some SerializationError)
   \<and> length (paramFormats empty_builder) = 0
   \<and> length [TextFormatCode] = 1"
  by (simp add: AppendParam_def no_codec_Map_def choose_text_def empty_builder_def
      ensure_paramValueBytes_def)




section \<open>Properties of the bool codec\<close>

text \<open>
  Claim C9. Scanning a nil payload with the plan for a native \<open>*bool\<close> target returns an
  error and leaves the target as it was, in the binary and in the text format; scanning
  nil with the plan for a \<open>BoolScanner\<close> target succeeds and stores a \<open>Bool\<close> whose
  \<open>Valid\<close> is false, in both formats. The plans are the ones \<open>PlanScan\<close> selects for
  these targets.
\<close>

theorem scan_nil_bool:
  "scanPlanBinaryBoolToBool_Scan None dst = (dst, Some NullNotAllowed)
   \<and> scanPlanTextAnyToBool_Scan None dst = (dst, Some NullNotAllowed)
   \<and> BoolCodec_PlanScan BinaryFormatCode (Ptr_bool p) = Some scanPlanBinaryBoolToBool_Scan
   \<and> BoolCodec_PlanScan TextFormatCode (Ptr_bool p) = Some scanPlanTextAnyToBool_Scan
   \<and> scanPlanBinaryBoolToBoolScanner_Scan None (Ptr_Bool b) =
         (Ptr_Bool \<lparr>Bool_Bool = False, Bool_Valid = False\<rparr>, None)
   \<and> scanPlanTextAnyToBoolScanner_Scan None (Ptr_Bool b) =
         (Ptr_Bool \<lparr>Bool_Bool = False, Bool_Valid = False\<rparr>, None)
   \<and> BoolCodec_PlanScan BinaryFormatCode (Ptr_Bool b) = Some scanPlanBinaryBoolToBoolScanner_Scan
   \<and> BoolCodec_PlanScan TextFormatCode (Ptr_Bool b) = Some scanPlanTextAnyToBoolScanner_Scan"
  by (simp add: scanPlanBinaryBoolToBool_Scan_def scanPlanTextAnyToBool_Scan_def
      scanPlanBinaryBoolToBoolScanner_Scan_def scanPlanTextAnyToBoolScanner_Scan_def
      BoolCodec_PlanScan_def BinaryFormatCode_def TextFormatCode_def ScanBool_def Bool_zero_def)

text \<open>
  Claim C10. A one-byte text payload whose byte is not \<open>'t'\<close> is scanned without error
  by both text plans and gives false: the native target becomes false, the \<open>BoolScanner\<close>
  target a valid \<open>Bool\<close> holding false.
\<close>

theorem text_bool_not_t:
  assumes "c \<noteq> of_char CHR ''t''"
  shows "scanPlanTextAnyToBool_Scan (Some [c]) (Ptr_bool p) = (Ptr_bool False, None)
     \<and> scanPlanTextAnyToBoolScanner_Scan (Some [c]) (Ptr_Bool b) =
         (Ptr_Bool \<lparr>Bool_Bool = False, Bool_Valid = True\<rparr>, None)"
  using assms
  by (simp add: scanPlanTextAnyToBool_Scan_def scanPlanTextAnyToBoolScanner_Scan_def ScanBool_def)

text \<open>The byte \<open>'x'\<close>, scanned over a target that held true.\<close>

theorem text_bool_not_t_witness:
  "(of_char CHR ''x'' :: byte) \<noteq> of_char CHR ''t''
   \<and> scanPlanTextAnyToBool_Scan (Some [of_char CHR ''x'']) (Ptr_bool True) = (Ptr_bool False, None)
   \<and> scanPlanTextAnyToBoolScanner_Scan (Some [of_char CHR ''x''])
        (Ptr_Bool \<lparr>Bool_Bool = True, Bool_Valid = True\<rparr>) =
         (Ptr_Bool \<lparr>Bool_Bool = False, Bool_Valid = True\<rparr>, None)"
  using text_bool_not_t [of "of_char CHR ''x''" True "\<lparr>Bool_Bool = True, Bool_Valid = True\<rparr>"]
  by simp

section \<open>Properties of the wire primitives\<close>

lemma bit_index_cases:
  "n < 64 \<Longrightarrow> n < 8 \<or> (8 \<le> n \<and> n < 16) \<or> (16 \<le> n \<and> n < 24) \<or> (24 \<le> n \<and> n < 32) \<or>
     (32 \<le> n \<and> n < 40) \<or> (40 \<le> n \<and> n < 48) \<or> (48 \<le> n \<and> n < 56) \<or> (56 \<le> n \<and> n < (64::nat))"
  by linarith

lemma BigEndian_Uint64_be_bytes: "BigEndian_Uint64 (be_bytes v) = v"
proof (rule bit_word_eqI)
  fix n assume "n < LENGTH(64)"
  then have "n < 64" by simp
  from bit_index_cases [OF this] show "bit (BigEndian_Uint64 (be_bytes v)) n = bit v n"
    unfolding BigEndian_Uint64_def be_bytes_def
    by (elim disjE conjE) (simp_all add: bit_simps less_diff_conv2)
qed

lemma byte_eqI: "(\<And>n. n < 8 \<Longrightarrow> bit (a::byte) n = bit b n) \<Longrightarrow> a = b"
  by (rule bit_word_eqI) simp

lemma byte_bit_out:
  "\<not> bit (b::byte) (8 + n)" "\<not> bit (b::byte) (16 + n)" "\<not> bit (b::byte) (24 + n)"
  "\<not> bit (b::byte) (32 + n)" "\<not> bit (b::byte) (40 + n)" "\<not> bit (b::byte) (48 + n)"
  "\<not> bit (b::byte) (56 + n)"
  by (auto dest: bit_imp_le_length)

lemma be_bytes_BigEndian_Uint64_8:
  "be_bytes (BigEndian_Uint64 [b0, b1, b2, b3, b4, b5, b6, b7]) = [b0, b1, b2, b3, b4, b5, b6, b7]"
  unfolding BigEndian_Uint64_def be_bytes_def
  apply simp
  apply (intro conjI byte_eqI)
         apply (simp_all add: bit_simps byte_bit_out)
  done

lemma length_8_cases:
  assumes "length bs = 8"
  obtains b0 b1 b2 b3 b4 b5 b6 b7 :: 'a where "bs = [b0, b1, b2, b3, b4, b5, b6, b7]"
  using assms by (auto simp: length_Suc_conv eval_nat_numeral)

lemma be_bytes_BigEndian_Uint64: "length bs = 8 \<Longrightarrow> be_bytes (BigEndian_Uint64 bs) = bs"
  by (erule length_8_cases) (simp only: be_bytes_BigEndian_Uint64_8)

lemma length_be_bytes: "length (be_bytes v) = 8"
  by (simp add: be_bytes_def)

lemma BigEndian_Uint64_eq_iff: "length bs = 8 \<Longrightarrow> BigEndian_Uint64 bs = v \<longleftrightarrow> bs = be_bytes v"
  using BigEndian_Uint64_be_bytes be_bytes_BigEndian_Uint64 by metis

lemma be_bytes_infinity:
  "be_bytes infinityMicrosecondOffset = [0x7F, 0xFF, 0xFF, 0xFF, 0xFF, 0xFF, 0xFF, 0xFF]"
  by (simp add: be_bytes_def infinityMicrosecondOffset_def)

lemma be_bytes_negativeInfinity:
  "be_bytes negativeInfinityMicrosecondOffset = [0x80, 0, 0, 0, 0, 0, 0, 0]"
  by (simp add: be_bytes_def negativeInfinityMicrosecondOffset_def)

lemma infinity_offsets_distinct: "infinityMicrosecondOffset \<noteq> negativeInfinityMicrosecondOffset"
  by (simp add: infinityMicrosecondOffset_def negativeInfinityMicrosecondOffset_def)

section \<open>Properties of the timestamptz codec\<close>

text \<open>
  Claim C6. Binary-encoding a valid wrapper whose modifier is +Infinity appends exactly the
  bytes 7F FF FF FF FF FF FF FF, one whose modifier is -Infinity exactly the bytes
  80 00 00 00 00 00 00 00; and the binary scan plan gives the +Infinity wrapper for the
  first payload, the -Infinity wrapper for the second, and a wrapper without infinity
  modifier for every other payload of eight bytes.
\<close>

theorem timestamptz_infinity_sentinels:
  "encodePlanTimestamptzCodecBinary_Encode
     (V_Timestamptz \<lparr>Timestamptz_Time = t, Timestamptz_InfinityModifier = Infinity,
                     Timestamptz_Valid = True\<rparr>) buf
   = (go_append buf [0x7F, 0xFF, 0xFF, 0xFF, 0xFF, 0xFF, 0xFF, 0xFF], None)
   \<and> encodePlanTimestamptzCodecBinary_Encode
     (V_Timestamptz \<lparr>Timestamptz_Time = t, Timestamptz_InfinityModifier = NegativeInfinity,
                     Timestamptz_Valid = True\<rparr>) buf
   = (go_append buf [0x80, 0, 0, 0, 0, 0, 0, 0], None)
   \<and> (length bs = 8 \<longrightarrow>
       (\<exists>tim. scanPlanBinaryTimestamptzToTimestamptzScanner_Scan (Some bs) (Ptr_Timestamptz old) =
         (Ptr_Timestamptz
            (if bs = [0x7F, 0xFF, 0xFF, 0xFF, 0xFF, 0xFF, 0xFF, 0xFF] then
               \<lparr>Timestamptz_Time = Time_zero, Timestamptz_InfinityModifier = Infinity,
                Timestamptz_Valid = True\<rparr>
             else if bs = [0x80, 0, 0, 0, 0, 0, 0, 0] then
               \<lparr>Timestamptz_Time = Time_zero, Timestamptz_InfinityModifier = NegativeInfinity,
                Timestamptz_Valid = True\<rparr>
             else
               \<lparr>Timestamptz_Time = tim, Timestamptz_InfinityModifier = None_IM,
                Timestamptz_Valid = True\<rparr>), None)))"
proof (intro conjI impI)
  show "encodePlanTimestamptzCodecBinary_Encode
     (V_Timestamptz \<lparr>Timestamptz_Time = t, Timestamptz_InfinityModifier = Infinity,
                     Timestamptz_Valid = True\<rparr>) buf
   = (go_append buf [0x7F, 0xFF, 0xFF, 0xFF, 0xFF, 0xFF, 0xFF, 0xFF], None)"
    by (simp add: encodePlanTimestamptzCodecBinary_Encode_def TimestamptzValue_def
        AppendInt64_def AppendUint64_def be_bytes_infinity)
next
  show "encodePlanTimestamptzCodecBinary_Encode
     (V_Timestamptz \<lparr>Timestamptz_Time = t, Timestamptz_InfinityModifier = NegativeInfinity,
                     Timestamptz_Valid = True\<rparr>) buf
   = (go_append buf [0x80, 0, 0, 0, 0, 0, 0, 0], None)"
    by (simp add: encodePlanTimestamptzCodecBinary_Encode_def TimestamptzValue_def
        AppendInt64_def AppendUint64_def be_bytes_negativeInfinity)
next
  assume len: "length bs = 8"
  have a: "BigEndian_Uint64 bs = infinityMicrosecondOffset \<longleftrightarrow>
             bs = [0x7F, 0xFF, 0xFF, 0xFF, 0xFF, 0xFF, 0xFF, 0xFF]"
    using BigEndian_Uint64_eq_iff [OF len] by (simp add: be_bytes_infinity)
  have b: "BigEndian_Uint64 bs = negativeInfinityMicrosecondOffset \<longleftrightarrow>
             bs = [0x80, 0, 0, 0, 0, 0, 0, 0]"
    using BigEndian_Uint64_eq_iff [OF len] by (simp add: be_bytes_negativeInfinity)
  show "\<exists>tim. scanPlanBinaryTimestamptzToTimestamptzScanner_Scan (Some bs) (Ptr_Timestamptz old) =
         (Ptr_Timestamptz
            (if bs = [0x7F, 0xFF, 0xFF, 0xFF, 0xFF, 0xFF, 0xFF, 0xFF] then
               \<lparr>Timestamptz_Time = Time_zero, Timestamptz_InfinityModifier = Infinity,
                Timestamptz_Valid = True\<rparr>
             else if bs = [0x80, 0, 0, 0, 0, 0, 0, 0] then
               \<lparr>Timestamptz_Time = Time_zero, Timestamptz_InfinityModifier = NegativeInfinity,
                Timestamptz_Valid = True\<rparr>
             else
               \<lparr>Timestamptz_Time = tim, Timestamptz_InfinityModifier = None_IM,
                Timestamptz_Valid = True\<rparr>), None)"
    using len a b
    by (auto simp: scanPlanBinaryTimestamptzToTimestamptzScanner_Scan_def ScanTimestamptz_def Let_def
        simp del: One_nat_def)
qed

text \<open>The +Infinity payload, scanned into a zero wrapper.\<close>

theorem timestamptz_infinity_sentinels_witness:
  "length [0x7F, 0xFF, 0xFF, 0xFF, 0xFF, 0xFF, 0xFF, 0xFF :: byte] = 8
   \<and> scanPlanBinaryTimestamptzToTimestamptzScanner_Scan
        (Some [0x7F, 0xFF, 0xFF, 0xFF, 0xFF, 0xFF, 0xFF, 0xFF]) (Ptr_Timestamptz Timestamptz_zero) =
      (Ptr_Timestamptz \<lparr>Timestamptz_Time = Time_zero, Timestamptz_InfinityModifier = Infinity,
                        Timestamptz_Valid = True\<rparr>, None)"
  using timestamptz_infinity_sentinels [of Time_zero "Some []"
      "[0x7F, 0xFF, 0xFF, 0xFF, 0xFF, 0xFF, 0xFF, 0xFF]" Timestamptz_zero]
  by simp

section \<open>Properties of the fixed-width binary payloads\<close>

lemma payload_go_append: "payload buf (go_append buf (x # xs)) = Some (x # xs)"
  by (cases buf) (simp_all add: payload_def)

lemma payload_None: "payload buf None = None"
  by (simp add: payload_def)

lemma payload_AppendUint64: "payload buf (AppendUint64 buf v) = Some (be_bytes v)"
  by (simp add: AppendUint64_def be_bytes_def payload_go_append)

lemma bool_binary_payload:
  "payload buf (fst (encodePlanBoolCodecBinaryBool_Encode val buf)) = Some p \<Longrightarrow> length p = 1"
  "payload buf (fst (encodePlanBoolCodecBinaryBoolValuer_Encode val buf)) = Some p \<Longrightarrow> length p = 1"
  by (auto simp: encodePlanBoolCodecBinaryBool_Encode_def encodePlanBoolCodecBinaryBoolValuer_Encode_def
      payload_go_append payload_None split: go_value.splits option.splits if_splits)

lemma float8_binary_payload:
  "payload buf (fst (encodePlanFloat8CodecBinaryFloat64_Encode val buf)) = Some p \<Longrightarrow> length p = 8"
  "payload buf (fst (encodePlanFloat8CodecBinaryFloat64Valuer_Encode val buf)) = Some p \<Longrightarrow> length p = 8"
  "payload buf (fst (encodePlanFloat8CodecBinaryInt64Valuer_Encode ovf val buf)) = Some p \<Longrightarrow> length p = 8"
  by (auto simp: encodePlanFloat8CodecBinaryFloat64_Encode_def
      encodePlanFloat8CodecBinaryFloat64Valuer_Encode_def
      encodePlanFloat8CodecBinaryInt64Valuer_Encode_def Let_def
      payload_AppendUint64 payload_None length_be_bytes split: go_value.splits option.splits if_splits)

lemma timestamptz_binary_payload:
  "payload buf (fst (encodePlanTimestamptzCodecBinary_Encode val buf)) = Some p \<Longrightarrow> length p = 8"
  by (auto simp: encodePlanTimestamptzCodecBinary_Encode_def AppendInt64_def Let_def
      payload_AppendUint64 payload_None length_be_bytes split: go_value.splits option.splits if_splits)

lemma bool_binary_wrong_length:
  "length bs \<noteq> 1 \<Longrightarrow>
     scanPlanBinaryBoolToBool_Scan (Some bs) dst = (dst, Some (InvalidLength ''bool'' (length bs)))"
  "length bs \<noteq> 1 \<Longrightarrow> as_BoolScanner dst \<noteq> None \<Longrightarrow>
     scanPlanBinaryBoolToBoolScanner_Scan (Some bs) dst = (dst, Some (InvalidLength ''bool'' (length bs)))"
  by (auto simp: scanPlanBinaryBoolToBool_Scan_def scanPlanBinaryBoolToBoolScanner_Scan_def)

lemma float8_binary_wrong_length:
  "length bs \<noteq> 8 \<Longrightarrow>
     scanPlanBinaryFloat8ToFloat64_Scan (Some bs) dst = (dst, Some (InvalidLength ''float8'' (length bs)))"
  "length bs \<noteq> 8 \<Longrightarrow> as_Float64Scanner dst \<noteq> None \<Longrightarrow>
     scanPlanBinaryFloat8ToFloat64Scanner_Scan (Some bs) dst =
       (dst, Some (InvalidLength ''float8'' (length bs)))"
  "length bs \<noteq> 8 \<Longrightarrow> as_Int64Scanner dst \<noteq> None \<Longrightarrow>
     scanPlanBinaryFloat8ToInt64Scanner_Scan ovf (Some bs) dst =
       (dst, Some (InvalidLength ''float8'' (length bs)))"
  by (auto simp: scanPlanBinaryFloat8ToFloat64_Scan_def scanPlanBinaryFloat8ToFloat64Scanner_Scan_def
      scanPlanBinaryFloat8ToInt64Scanner_Scan_def)

lemma timestamptz_binary_wrong_length:
  "length bs \<noteq> 8 \<Longrightarrow> as_TimestamptzScanner dst \<noteq> None \<Longrightarrow>
     scanPlanBinaryTimestamptzToTimestamptzScanner_Scan (Some bs) dst =
       (dst, Some (InvalidLength ''timestamptz'' (length bs)))"
  by (auto simp: scanPlanBinaryTimestamptzToTimestamptzScanner_Scan_def)

text \<open>
  Claim C5. A payload produced by a binary bool encode plan has length 1, one produced by
  a binary float8 or timestamptz encode plan has length 8; and a binary scan plan given a
  non-nil payload of another length returns the invalid-length error and the target
  unchanged (for the plans that scan through a capability, when the target has it).
\<close>

theorem binary_widths:
  "(payload buf (fst (encodePlanBoolCodecBinaryBool_Encode val1 buf)) = Some p1 \<longrightarrow> length p1 = 1)
   \<and> (payload buf (fst (encodePlanBoolCodecBinaryBoolValuer_Encode val2 buf)) = Some p2 \<longrightarrow>
        length p2 = 1)
   \<and> (payload buf (fst (encodePlanFloat8CodecBinaryFloat64_Encode val3 buf)) = Some p3 \<longrightarrow>
        length p3 = 8)
   \<and> (payload buf (fst (encodePlanFloat8CodecBinaryFloat64Valuer_Encode val4 buf)) = Some p4 \<longrightarrow>
        length p4 = 8)
   \<and> (payload buf (fst (encodePlanFloat8CodecBinaryInt64Valuer_Encode ovf val5 buf)) = Some p5 \<longrightarrow>
        length p5 = 8)
   \<and> (payload buf (fst (encodePlanTimestamptzCodecBinary_Encode val6 buf)) = Some p6 \<longrightarrow>
        length p6 = 8)
   \<and> (length bs \<noteq> 1 \<longrightarrow>
        scanPlanBinaryBoolToBool_Scan (Some bs) dst1 =
          (dst1, Some (InvalidLength ''bool'' (length bs))))
   \<and> (length bs \<noteq> 1 \<and> as_BoolScanner dst2 \<noteq> None \<longrightarrow>
        scanPlanBinaryBoolToBoolScanner_Scan (Some bs) dst2 =
          (dst2, Some (InvalidLength ''bool'' (length bs))))
   \<and> (length bs \<noteq> 8 \<longrightarrow>
        scanPlanBinaryFloat8ToFloat64_Scan (Some bs) dst3 =
          (dst3, Some (InvalidLength ''float8'' (length bs))))
   \<and> (length bs \<noteq> 8 \<and> as_Float64Scanner dst4 \<noteq> None \<longrightarrow>
        scanPlanBinaryFloat8ToFloat64Scanner_Scan (Some bs) dst4 =
          (dst4, Some (InvalidLength ''float8'' (length bs))))
   \<and> (length bs \<noteq> 8 \<and> as_Int64Scanner dst5 \<noteq> None \<longrightarrow>
        scanPlanBinaryFloat8ToInt64Scanner_Scan ovf (Some bs) dst5 =
          (dst5, Some (InvalidLength ''float8'' (length bs))))
   \<and> (length bs \<noteq> 8 \<and> as_TimestamptzScanner dst6 \<noteq> None \<longrightarrow>
        scanPlanBinaryTimestamptzToTimestamptzScanner_Scan (Some bs) dst6 =
          (dst6, Some (InvalidLength ''timestamptz'' (length bs))))"
  by (intro conjI impI; (elim conjE)?;
      (erule (1) bool_binary_wrong_length float8_binary_wrong_length timestamptz_binary_wrong_length
       | erule bool_binary_payload float8_binary_payload timestamptz_binary_payload
           bool_binary_wrong_length float8_binary_wrong_length))

text \<open>
  One value per encode plan, appended to a buffer that already holds a byte, and a payload
  of two bytes for every scan plan.
\<close>

lemma float64_of_int64_3: "float64_of_int64 3 = 0x4008000000000000"
  by (simp add: float64_of_int64_def float64_make_def bitlen.simps Let_def)

theorem binary_widths_witness:
  "payload (Some [9]) (fst (encodePlanBoolCodecBinaryBool_Encode (V_bool True) (Some [9]))) = Some [1]
   \<and> payload (Some [9]) (fst (encodePlanBoolCodecBinaryBoolValuer_Encode
        (V_Bool \<lparr>Bool_Bool = False, Bool_Valid = True\<rparr>) (Some [9]))) = Some [0]
   \<and> payload (Some [9]) (fst (encodePlanFloat8CodecBinaryFloat64_Encode
        (V_float64 0x4008000000000000) (Some [9]))) = Some [0x40, 8, 0, 0, 0, 0, 0, 0]
   \<and> payload (Some [9]) (fst (encodePlanFloat8CodecBinaryFloat64Valuer_Encode
        (V_Float8 \<lparr>Float8_Float = 0x4008000000000000, Float8_Valid = True\<rparr>) (Some [9])))
        = Some [0x40, 8, 0, 0, 0, 0, 0, 0]
   \<and> payload (Some [9]) (fst (encodePlanFloat8CodecBinaryInt64Valuer_Encode amd64_ovf
        (V_Int8 \<lparr>Int8_Int = 3, Int8_Valid = True\<rparr>) (Some [9])))
        = Some [0x40, 8, 0, 0, 0, 0, 0, 0]
   \<and> payload (Some [9]) (fst (encodePlanTimestamptzCodecBinary_Encode
        (V_Timestamptz \<lparr>Timestamptz_Time = Time_zero, Timestamptz_InfinityModifier = Infinity,
                        Timestamptz_Valid = True\<rparr>) (Some [9])))
        = Some [0x7F, 0xFF, 0xFF, 0xFF, 0xFF, 0xFF, 0xFF, 0xFF]
   \<and> length [0, 0 :: byte] \<noteq> 1 \<and> length [0, 0 :: byte] \<noteq> 8
   \<and> as_BoolScanner (Ptr_Bool Bool_zero) \<noteq> None
   \<and> as_Float64Scanner (Ptr_Float8 Float8_zero) \<noteq> None
   \<and> as_Int64Scanner (Ptr_Int8 Int8_zero) \<noteq> None
   \<and> as_TimestamptzScanner (Ptr_Timestamptz Timestamptz_zero) \<noteq> None
   \<and> scanPlanBinaryBoolToBool_Scan (Some [0, 0]) (Ptr_bool True) =
        (Ptr_bool True, Some (InvalidLength ''bool'' 2))
   \<and> scanPlanBinaryBoolToBoolScanner_Scan (Some [0, 0]) (Ptr_Bool Bool_zero) =
        (Ptr_Bool Bool_zero, Some (InvalidLength ''bool'' 2))
   \<and> scanPlanBinaryFloat8ToFloat64_Scan (Some [0, 0]) (Ptr_float64 0) =
        (Ptr_float64 0, Some (InvalidLength ''float8'' 2))
   \<and> scanPlanBinaryFloat8ToFloat64Scanner_Scan (Some [0, 0]) (Ptr_Float8 Float8_zero) =
        (Ptr_Float8 Float8_zero, Some (InvalidLength ''float8'' 2))
   \<and> scanPlanBinaryFloat8ToInt64Scanner_Scan amd64_ovf (Some [0, 0]) (Ptr_Int8 Int8_zero) =
        (Ptr_Int8 Int8_zero, Some (InvalidLength ''float8'' 2))
   \<and> scanPlanBinaryTimestamptzToTimestamptzScanner_Scan (Some [0, 0])
        (Ptr_Timestamptz Timestamptz_zero) =
        (Ptr_Timestamptz Timestamptz_zero, Some (InvalidLength ''timestamptz'' 2))"
  using binary_widths [of "Some [9]" "V_bool True" "[1]"
      "V_Bool \<lparr>Bool_Bool = False, Bool_Valid = True\<rparr>" "[0]"
      "V_float64 0x4008000000000000" "[0x40, 8, 0, 0, 0, 0, 0, 0]"
      "V_Float8 \<lparr>Float8_Float = 0x4008000000000000, Float8_Valid = True\<rparr>"
      "[0x40, 8, 0, 0, 0, 0, 0, 0]"
      amd64_ovf "V_Int8 \<lparr>Int8_Int = 3, Int8_Valid = True\<rparr>" "[0x40, 8, 0, 0, 0, 0, 0, 0]"
      "V_Timestamptz \<lparr>Timestamptz_Time = Time_zero, Timestamptz_InfinityModifier = Infinity,
                        Timestamptz_Valid = True\<rparr>"
      "[0x7F, 0xFF, 0xFF, 0xFF, 0xFF, 0xFF, 0xFF, 0xFF]"
      "[0, 0]" "Ptr_bool True" "Ptr_Bool Bool_zero" "Ptr_float64 0" "Ptr_Float8 Float8_zero"
      "Ptr_Int8 Int8_zero" "Ptr_Timestamptz Timestamptz_zero"]
  by (simp add: payload_def encodePlanBoolCodecBinaryBool_Encode_def
      encodePlanBoolCodecBinaryBoolValuer_Encode_def BoolValue_def
      encodePlanFloat8CodecBinaryFloat64_Encode_def encodePlanFloat8CodecBinaryFloat64Valuer_Encode_def
      Float64Value_def encodePlanFloat8CodecBinaryInt64Valuer_Encode_def Int8_Int64Value_def
      encodePlanTimestamptzCodecBinary_Encode_def TimestamptzValue_def
      AppendInt64_def AppendUint64_def be_bytes_def float64_of_int64_3 infinityMicrosecondOffset_def)

section \<open>The binary round trip of timestamptz\<close>

text \<open>Truncating division by a million, for a count split into seconds and microseconds.\<close>

lemma div_mod_million: fixes V N :: int assumes "0 \<le> N" "N < 1000000"
  shows "(V * 1000000 + N) div 1000000 = V" "(V * 1000000 + N) mod 1000000 = N"
  using assms by simp_all

lemma trunc_core_div:
  fixes V N :: int
  assumes "0 \<le> N" "N < 1000000"
  shows "(V * 1000000 + N) sdiv 1000000 = (if V < 0 \<and> N \<noteq> 0 then V + 1 else V)"
proof -
  consider "0 \<le> V" | "V < 0" "N = 0" | "V < 0" "0 < N" using assms by linarith
  then show ?thesis
  proof cases
    case 1
    then have "0 \<le> V * 1000000 + N" using assms by simp
    then show ?thesis using 1 assms div_mod_million[OF assms, of V]
      by (auto simp add: signed_divide_int_def sgn_if)
  next
    case 2
    then show ?thesis by (simp add: signed_divide_int_def sgn_if)
  next
    case 3
    then have neg: "V * 1000000 + N < 0" using assms by linarith
    have "\<bar>V * 1000000 + N\<bar> = (- V - 1) * 1000000 + (1000000 - N)" using neg by simp
    moreover have "((- V - 1) * 1000000 + (1000000 - N)) div 1000000 = - V - 1"
      using div_mod_million(1)[of "1000000 - N" "- V - 1"] 3 assms by simp
    ultimately show ?thesis using 3 neg by (simp add: signed_divide_int_def sgn_if)
  qed
qed

lemma trunc_core_mod:
  fixes V N :: int
  assumes "0 \<le> N" "N < 1000000"
  shows "(V * 1000000 + N) smod 1000000 = (if V < 0 \<and> N \<noteq> 0 then N - 1000000 else N)"
proof -
  have "(V * 1000000 + N) smod 1000000 =
          (V * 1000000 + N) - (V * 1000000 + N) sdiv 1000000 * 1000000"
    by (simp add: minus_sdiv_mult_eq_smod)
  also have "\<dots> = (V * 1000000 + N) - (if V < 0 \<and> N \<noteq> 0 then V + 1 else V) * 1000000"
    by (simp only: trunc_core_div [OF assms])
  also have "\<dots> = (if V < 0 \<and> N \<noteq> 0 then N - 1000000 else N)"
    by simp
  finally show ?thesis .
qed

lemma sint_word_of_int_64:
  "- (2 ^ 63) \<le> x \<Longrightarrow> x < 2 ^ 63 \<Longrightarrow> sint (word_of_int x :: 64 word) = x"
  by (simp add: sint_sbintrunc' signed_take_bit_int_eq_self)

lemma sdiv_small: fixes x :: int assumes "- 1000000000 < x" "x < 1000000000"
  shows "x sdiv 1000000000 = 0"
  using assms by (simp add: signed_divide_int_def sgn_if)

lemma time_Unix_small:
  assumes "- 1000000000 < sint nsec" "sint nsec < 1000000000"
  shows "time_Unix sec nsec =
     (if sint nsec < 0 then \<lparr>Time_Unix = sec - 1, Time_Nanosecond = nsec + 1000000000\<rparr>
      else \<lparr>Time_Unix = sec, Time_Nanosecond = nsec\<rparr>)"
  using assms by (simp add: time_Unix_def int64_div_def sdiv_small Let_def)

lemma int64_div_nonneg:
  assumes "0 \<le> sint a"
  shows "int64_div a 1000 = word_of_int (sint a div 1000)"
  using assms by (simp add: int64_div_def signed_divide_int_def sgn_if)

lemma encode_word:
  assumes "0 \<le> sint (Time_Nanosecond t)"
  shows "Time_Unix t * 1000000 + int64_div (Time_Nanosecond t) 1000 - microsecFromUnixEpochToY2K
         = word_of_int (microsecSinceY2K_of t)"
proof -
  have "Time_Unix t = word_of_int (sint (Time_Unix t))" by simp
  then show ?thesis
    unfolding microsecSinceY2K_of_def int64_div_nonneg [OF assms] microsecFromUnixEpochToY2K_def
    by (simp add: )
qed

lemma decode_time:
  assumes N: "0 \<le> sint (Time_Nanosecond t)" "sint (Time_Nanosecond t) < 1000000000"
    and R: "- (2 ^ 63) \<le> microsecSinceY2K_of t" "microsecSinceY2K_of t < 2 ^ 63"
  defines "w \<equiv> (word_of_int (microsecSinceY2K_of t) :: int64)"
  shows "time_Unix (int64_div microsecFromUnixEpochToY2K 1000000 + int64_div w 1000000)
                   (int64_rem microsecFromUnixEpochToY2K 1000000 * 1000 + int64_rem w 1000000 * 1000)
         = \<lparr>Time_Unix = Time_Unix t,
            Time_Nanosecond = word_of_int (sint (Time_Nanosecond t) div 1000 * 1000)\<rparr>"
proof -
  define U where "U = sint (Time_Unix t)"
  define M where "M = sint (Time_Nanosecond t) div 1000"
  have M: "0 \<le> M" "M < 1000000" using N by (auto simp: M_def)
  have mu: "microsecSinceY2K_of t = (U - 946684800) * 1000000 + M"
    by (simp add: microsecSinceY2K_of_def U_def M_def algebra_simps)
  have sw: "sint w = (U - 946684800) * 1000000 + M"
    unfolding w_def using sint_word_of_int_64 [OF R] mu by simp
  let ?c = "U - 946684800 < 0 \<and> M \<noteq> 0"
  have d: "sint w sdiv 1000000 = (if ?c then U - 946684800 + 1 else U - 946684800)"
    unfolding sw by (rule trunc_core_div [OF M])
  have r: "sint w smod 1000000 = (if ?c then M - 1000000 else M)"
    unfolding sw by (rule trunc_core_mod [OF M])
  have sec: "int64_div microsecFromUnixEpochToY2K 1000000 + int64_div w 1000000
               = word_of_int (if ?c then U + 1 else U)"
    by (simp add: int64_div_def microsecFromUnixEpochToY2K_def d)
  have nsec: "int64_rem microsecFromUnixEpochToY2K 1000000 * 1000 + int64_rem w 1000000 * 1000
               = word_of_int ((if ?c then M - 1000000 else M) * 1000)"
  proof -
    have "int64_rem microsecFromUnixEpochToY2K 1000000 = 0"
      by (simp add: int64_rem_def microsecFromUnixEpochToY2K_def signed_modulo_int_def)
    then show ?thesis by (simp add: int64_rem_def r)
  qed
  define X where "X = (if ?c then M - 1000000 else M) * 1000"
  define nw where "nw = (word_of_int X :: int64)"
  define sw' where "sw' = (word_of_int (if ?c then U + 1 else U) :: int64)"
  have Xb: "- 1000000000 < X" "X < 1000000000" using M by (auto simp: X_def)
  have Xneg: "X < 0 \<longleftrightarrow> ?c" using M by (auto simp: X_def)
  have snw: "sint nw = X"
    unfolding nw_def using Xb by (intro sint_word_of_int_64) auto
  have tu: "time_Unix sw' nw =
      (if ?c then \<lparr>Time_Unix = sw' - 1, Time_Nanosecond = nw + 1000000000\<rparr>
       else \<lparr>Time_Unix = sw', Time_Nanosecond = nw\<rparr>)"
    using time_Unix_small [of nw sw'] Xb Xneg by (simp add: snw)
  have Ut: "word_of_int U = Time_Unix t" by (simp add: U_def)
  have fin: "(if ?c then \<lparr>Time_Unix = sw' - 1, Time_Nanosecond = nw + 1000000000\<rparr>
       else \<lparr>Time_Unix = sw', Time_Nanosecond = nw\<rparr>)
     = \<lparr>Time_Unix = Time_Unix t, Time_Nanosecond = word_of_int (M * 1000)\<rparr>"
    using Ut by (simp add: sw'_def nw_def X_def)
  show ?thesis
    unfolding sec nsec using tu fin by (simp add: sw'_def nw_def X_def M_def)
qed

text \<open>The three kinds of wrapper: an instant, NULL, an infinity.\<close>

lemma timestamptz_roundtrip_time:
  assumes V: "Timestamptz_Valid v" "Timestamptz_InfinityModifier v = None_IM"
    and R: "Timestamptz_in_range v"
  shows "timestamptz_binary_roundtrip v buf old = (Ptr_Timestamptz (truncate_microsecond v), None)"
proof -
  let ?t = "Timestamptz_Time v"
  from V R have N: "0 \<le> sint (Time_Nanosecond ?t)" "sint (Time_Nanosecond ?t) < 1000000000"
    and B: "- (2 ^ 63) < microsecSinceY2K_of ?t" "microsecSinceY2K_of ?t < 2 ^ 63 - 1"
    by (auto simp: Timestamptz_in_range_def)
  define w where "w = (word_of_int (microsecSinceY2K_of ?t) :: int64)"
  have sw: "sint w = microsecSinceY2K_of ?t"
    unfolding w_def using B by (intro sint_word_of_int_64) auto
  have ne: "w \<noteq> infinityMicrosecondOffset" "w \<noteq> negativeInfinityMicrosecondOffset"
    using sw B by (auto simp: infinityMicrosecondOffset_def negativeInfinityMicrosecondOffset_def)
  have enc: "encodePlanTimestamptzCodecBinary_Encode (V_Timestamptz v) buf = (AppendUint64 buf w, None)"
    using V encode_word [OF N(1)]
    by (simp add: encodePlanTimestamptzCodecBinary_Encode_def TimestamptzValue_def AppendInt64_def
        Let_def w_def)
  have dec: "time_Unix (int64_div microsecFromUnixEpochToY2K 1000000 + int64_div w 1000000)
                   (int64_rem microsecFromUnixEpochToY2K 1000000 * 1000 + int64_rem w 1000000 * 1000)
         = \<lparr>Time_Unix = Time_Unix ?t,
            Time_Nanosecond = word_of_int (sint (Time_Nanosecond ?t) div 1000 * 1000)\<rparr>"
    unfolding w_def using B by (intro decode_time N) auto
  have tr: "truncate_microsecond v =
      \<lparr>Timestamptz_Time = \<lparr>Time_Unix = Time_Unix ?t,
            Time_Nanosecond = word_of_int (sint (Time_Nanosecond ?t) div 1000 * 1000)\<rparr>,
       Timestamptz_InfinityModifier = None_IM, Timestamptz_Valid = True\<rparr>"
    using V by (simp add: truncate_microsecond_def)
  show ?thesis
    unfolding timestamptz_binary_roundtrip_def enc
    using ne
    by (simp add: payload_AppendUint64 scanPlanBinaryTimestamptzToTimestamptzScanner_Scan_def
        length_be_bytes BigEndian_Uint64_be_bytes Let_def dec tr ScanTimestamptz_def)
qed

lemma timestamptz_roundtrip_null:
  assumes "\<not> Timestamptz_Valid v"
  shows "timestamptz_binary_roundtrip v buf old = (Ptr_Timestamptz Timestamptz_zero, None)"
  using assms
  by (simp add: timestamptz_binary_roundtrip_def encodePlanTimestamptzCodecBinary_Encode_def
      TimestamptzValue_def payload_None scanPlanBinaryTimestamptzToTimestamptzScanner_Scan_def
      ScanTimestamptz_def)

lemma timestamptz_roundtrip_infinity:
  assumes "Timestamptz_Valid v" "Timestamptz_InfinityModifier v \<noteq> None_IM"
  shows "timestamptz_binary_roundtrip v buf old =
     (Ptr_Timestamptz \<lparr>Timestamptz_Time = Time_zero,
        Timestamptz_InfinityModifier = Timestamptz_InfinityModifier v,
        Timestamptz_Valid = True\<rparr>, None)"
  using assms infinity_offsets_distinct
  by (cases "Timestamptz_InfinityModifier v")
    (simp_all add: timestamptz_binary_roundtrip_def encodePlanTimestamptzCodecBinary_Encode_def
      TimestamptzValue_def AppendInt64_def payload_AppendUint64
      scanPlanBinaryTimestamptzToTimestamptzScanner_Scan_def length_be_bytes
      BigEndian_Uint64_be_bytes ScanTimestamptz_def)

text \<open>
  Claim C4, as the code has it. For every in-range value \<open>v\<close>, NULL and the infinities
  included, scanning the binary encoding of \<open>v\<close> succeeds and yields a wrapper equal to
  \<open>v\<close> cut to whole microseconds; it is equal to \<open>v\<close> itself when the time of \<open>v\<close>
  has no part below the microsecond.
\<close>

theorem timestamptz_binary_roundtrip_truncates:
  assumes "Timestamptz_in_range v"
  shows "\<exists>v'. timestamptz_binary_roundtrip v buf old = (Ptr_Timestamptz v', None)
           \<and> Timestamptz_equal v' (truncate_microsecond v)
           \<and> (sint (Time_Nanosecond (Timestamptz_Time v)) mod 1000 = 0 \<longrightarrow> Timestamptz_equal v' v)"
proof (cases "Timestamptz_Valid v")
  case False
  then show ?thesis
    using timestamptz_roundtrip_null [of v buf old]
    by (simp add: Timestamptz_equal_def truncate_microsecond_def Timestamptz_zero_def)
next
  case True
  show ?thesis
  proof (cases "Timestamptz_InfinityModifier v = None_IM")
    case False
    with True show ?thesis
      using timestamptz_roundtrip_infinity [of v buf old]
      by (simp add: Timestamptz_equal_def truncate_microsecond_def)
  next
    case None: True
    have id: "sint (Time_Nanosecond (Timestamptz_Time v)) mod 1000 = 0 \<Longrightarrow> truncate_microsecond v = v"
      by (simp add: truncate_microsecond_def mod_0_imp_dvd)
    show ?thesis
      using timestamptz_roundtrip_time [OF True None assms, of buf old] id
      by (auto simp add: Timestamptz_equal_def)
  qed
qed

text \<open>The last microsecond before 2000-01-01 UTC.\<close>

theorem timestamptz_binary_roundtrip_truncates_witness:
  "Timestamptz_in_range
     \<lparr>Timestamptz_Time = \<lparr>Time_Unix = 946684799, Time_Nanosecond = 999999000\<rparr>,
      Timestamptz_InfinityModifier = None_IM, Timestamptz_Valid = True\<rparr>
   \<and> sint (999999000 :: int64) mod 1000 = 0
   \<and> (\<exists>v'. timestamptz_binary_roundtrip
          \<lparr>Timestamptz_Time = \<lparr>Time_Unix = 946684799, Time_Nanosecond = 999999000\<rparr>,
           Timestamptz_InfinityModifier = None_IM, Timestamptz_Valid = True\<rparr>
          (Some []) Timestamptz_zero = (Ptr_Timestamptz v', None)
        \<and> Timestamptz_equal v'
          \<lparr>Timestamptz_Time = \<lparr>Time_Unix = 946684799, Time_Nanosecond = 999999000\<rparr>,
           Timestamptz_InfinityModifier = None_IM, Timestamptz_Valid = True\<rparr>)"
proof -
  have r: "Timestamptz_in_range
     \<lparr>Timestamptz_Time = \<lparr>Time_Unix = 946684799, Time_Nanosecond = 999999000\<rparr>,
      Timestamptz_InfinityModifier = None_IM, Timestamptz_Valid = True\<rparr>"
    by (simp add: Timestamptz_in_range_def microsecSinceY2K_of_def)
  have m: "sint (999999000 :: int64) mod 1000 = 0" by simp
  from timestamptz_binary_roundtrip_truncates [OF r, of "Some []" Timestamptz_zero] r m
  show ?thesis by auto
qed

text \<open>
  Claim C4 as stated fails one nanosecond after 2000-01-01 UTC: the value is in range, its
  encoding is eight zero bytes, and the scan gives 2000-01-01 UTC itself, another instant.
\<close>

theorem timestamptz_binary_roundtrip_counterexample:
  "Timestamptz_in_range one_nanosecond_past_Y2K
   \<and> timestamptz_binary_roundtrip one_nanosecond_past_Y2K (Some []) Timestamptz_zero =
       (Ptr_Timestamptz
          \<lparr>Timestamptz_Time = \<lparr>Time_Unix = 946684800, Time_Nanosecond = 0\<rparr>,
           Timestamptz_InfinityModifier = None_IM, Timestamptz_Valid = True\<rparr>, None)
   \<and> \<not> Timestamptz_equal
          \<lparr>Timestamptz_Time = \<lparr>Time_Unix = 946684800, Time_Nanosecond = 0\<rparr>,
           Timestamptz_InfinityModifier = None_IM, Timestamptz_Valid = True\<rparr>
          one_nanosecond_past_Y2K"
  by (simp add: Timestamptz_in_range_def one_nanosecond_past_Y2K_def microsecSinceY2K_of_def
      timestamptz_binary_roundtrip_def encodePlanTimestamptzCodecBinary_Encode_def
      TimestamptzValue_def AppendInt64_def payload_AppendUint64 length_be_bytes
      BigEndian_Uint64_be_bytes scanPlanBinaryTimestamptzToTimestamptzScanner_Scan_def
      microsecFromUnixEpochToY2K_def int64_div_def int64_rem_def signed_divide_int_def
      signed_modulo_int_def infinityMicrosecondOffset_def negativeInfinityMicrosecondOffset_def
      time_Unix_def ScanTimestamptz_def Timestamptz_equal_def)

section \<open>Properties of the float8 codec\<close>





lemma unat_float64_make:
  assumes "e < 2048" "m < 2 ^ 52"
  shows "unat (float64_make s e m) = (if s then 2 ^ 63 else 0) + (e * 2 ^ 52 + m)"
proof -
  have "e * 2 ^ 52 + m < 2 ^ 63" using assms by simp
  then have "(if s then 2 ^ 63 else 0) + (e * 2 ^ 52 + m) < (2 ^ 64 :: nat)" by simp
  then show ?thesis
    unfolding float64_make_def by (simp add: unat_of_nat del: of_nat_add of_nat_mult)
qed

lemma float64_make_sign:
  assumes "e < 2048" "m < 2 ^ 52"
  shows "float64_sign (float64_make s e m) = s"
proof -
  have "e * 2 ^ 52 + m < 2 ^ 63" using assms by simp
  then show ?thesis
  unfolding float64_sign_def unat_float64_make [OF assms] by simp
qed

lemma float64_make_exp:
  assumes "e < 2048" "m < 2 ^ 52"
  shows "float64_exp (float64_make s e m) = e"
proof -
  have "(2 ^ 63 + (e * 2 ^ 52 + m)) div 2 ^ 52 = 2 ^ 11 + e"
    using assms by (intro div_nat_eqI) simp_all
  moreover have "(e * 2 ^ 52 + m) div 2 ^ 52 = e" using assms by simp
  ultimately show ?thesis
    unfolding float64_exp_def unat_float64_make [OF assms] using assms by simp
qed

lemma float64_make_frac:
  assumes "e < 2048" "m < 2 ^ 52"
  shows "float64_frac (float64_make s e m) = m"
proof -
  have "(2 ^ 63 + (e * 2 ^ 52 + m)) mod 2 ^ 52 = m"
    using assms by (simp add: mod_add_eq [symmetric] )
  moreover have "(e * 2 ^ 52 + m) mod 2 ^ 52 = m" using assms by simp
  ultimately show ?thesis
    unfolding float64_frac_def unat_float64_make [OF assms] using assms by simp
qed

text \<open>The binary digits of a positive number, and the value of doubles that compare equal.\<close>

lemma bitlen_0: "bitlen 0 = 0"
  by (subst bitlen.simps) simp

lemma bitlen_1: "bitlen (Suc 0) = Suc 0"
  by (subst bitlen.simps) (simp add: bitlen_0)





lemma float64_magnitude_make:
  assumes "0 < e" "e < 2048" "m < 2 ^ 52"
  shows "float64_magnitude (float64_make s e m) = (2 ^ 52 + m) * 2 ^ (e - 1)"
  using assms
  by (simp add: float64_magnitude_def float64_significand_def float64_make_exp float64_make_frac
      max_def)




text \<open>
  Truncation of a double, and the two directions of the test in the scan plan: a double
  that equals the conversion of its truncation is that integer, and an integral double in
  the range of \<open>int64\<close> equals the conversion of its truncation.
\<close>

lemma float64_scaled_sdiv:
  "float64_scaled f sdiv 2 ^ 1074 =
     (if float64_sign f then - int (float64_magnitude f div 2 ^ 1074)
      else int (float64_magnitude f div 2 ^ 1074))"
proof -
  define P :: nat where "P = 2 ^ 1074"
  have P: "0 < P" by (simp add: P_def)
  have p: "(2::int) ^ 1074 = int P" by (simp add: P_def del: power_numeral)
  have q: "(2::nat) ^ 1074 = P" by (simp add: P_def)
  have s: "sgn (int P) = 1" "\<bar>int P\<bar> = int P" using P by simp_all
  show ?thesis
    unfolding p q float64_scaled_def signed_divide_int_def
    by (auto simp: s sgn_if zdiv_int div_eq_0_iff)
qed












text \<open>
  The smallest \<open>int64\<close> converts to \<open>-2 ^ 63\<close>, which is representable: with the amd64
  conversion no unrepresentable double passes the test.
\<close>

lemma bitlen_pow2: "bitlen (2 ^ n) = Suc n"
proof (induction n)
  case 0
  show ?case by (simp add: bitlen_1)
next
  case (Suc n)
  have "bitlen (2 ^ Suc n) = Suc (bitlen (2 ^ Suc n div 2))" by (subst bitlen.simps) simp
  then show ?case using Suc by simp
qed

lemma float64_of_int64_min: "float64_of_int64 (- 9223372036854775808) = float64_make True 1086 0"
proof -
  have s: "sint (- 9223372036854775808 :: int64) = - (2 ^ 63)" by simp
  have a: "nat \<bar>- (2 ^ 63) :: int\<bar> = 2 ^ 63" by simp
  have k: "bitlen (2 ^ 63) - 1 = 63" unfolding bitlen_pow2 by simp
  show ?thesis
    unfolding float64_of_int64_def s a Let_def k by simp
qed

lemma float64_min_representable: "float64_representable (float64_make True 1086 0)"
proof -
  let ?g = "float64_make True 1086 0"
  have e: "float64_exp ?g = 1086" by (rule float64_make_exp) simp_all
  have s: "float64_sign ?g" by (simp add: float64_make_sign)
  have "float64_magnitude ?g = (2 ^ 52 + 0) * 2 ^ (1086 - 1)"
    by (rule float64_magnitude_make) simp_all
  also have "\<dots> = 2 ^ 63 * 2 ^ 1074" by (simp add: power_add [symmetric] del: power_numeral)
  finally have m: "float64_magnitude ?g = 2 ^ 63 * 2 ^ 1074" .
  have "float64_magnitude ?g div 2 ^ 1074 = 2 ^ 63"
    unfolding m by (rule nonzero_mult_div_cancel_right) simp
  then have "float64_scaled ?g sdiv 2 ^ 1074 = - (2 ^ 63)"
    unfolding float64_scaled_sdiv using s by simp
  then show ?thesis by (simp add: float64_representable_def e)
qed

lemma float64_eq_min:
  assumes "float64_eq f (float64_make True 1086 0)"
  shows "f = float64_make True 1086 0"
proof -
  have "unat (float64_make True 1086 0) = 2 ^ 63 + (1086 * 2 ^ 52 + 0)"
    by (subst unat_float64_make) simp_all
  then have "unat (float64_make True 1086 0) mod 2 ^ 63 \<noteq> 0" by simp
  with assms show ?thesis by (auto simp: float64_eq_def)
qed

lemma amd64_unrepresentable_is_lossy:
  assumes "\<not> float64_representable f"
  shows "\<not> float64_eq f (float64_of_int64 (amd64_ovf f))"
proof
  assume "float64_eq f (float64_of_int64 (amd64_ovf f))"
  then have "float64_eq f (float64_make True 1086 0)"
    by (simp only: amd64_ovf_def float64_of_int64_min)
  then have "f = float64_make True 1086 0" by (rule float64_eq_min)
  with float64_min_representable assms show False by simp
qed







text \<open>
  The double \<open>2 ^ 63\<close> is not representable, and what the scan does with it depends on
  the conversion.
\<close>

lemma double_2_63_facts:
  "BigEndian_Uint64 [0x43, 0xE0, 0, 0, 0, 0, 0, 0] = 0x43E0000000000000"
  "\<not> float64_representable 0x43E0000000000000"
  "float64_scaled 0x43E0000000000000 = 2 ^ 63 * 2 ^ 1074"
  "saturating_ovf 0x43E0000000000000 = 9223372036854775807"
  by (simp_all add: BigEndian_Uint64_def float64_representable_def
      float64_scaled_def float64_magnitude_def float64_significand_def float64_exp_def
      float64_frac_def float64_sign_def signed_divide_int_def saturating_ovf_def float64_isNaN_def)



lemma amd64_rejects_2_63:
  "scanPlanBinaryFloat8ToInt64Scanner_Scan amd64_ovf (Some [0x43, 0xE0, 0, 0, 0, 0, 0, 0])
     (Ptr_Int8 Int8_zero) = (Ptr_Int8 Int8_zero, Some (LossyConversion 0x43E0000000000000))"
proof -
  have n: "\<not> float64_eq 0x43E0000000000000 (float64_of_int64 (amd64_ovf 0x43E0000000000000))"
    by (rule amd64_unrepresentable_is_lossy) (rule double_2_63_facts)
  have j: "int64_of_float64 amd64_ovf 0x43E0000000000000 = amd64_ovf 0x43E0000000000000"
    by (simp add: int64_of_float64_def double_2_63_facts)
  show ?thesis
    using n
    by (simp add: scanPlanBinaryFloat8ToInt64Scanner_Scan_def double_2_63_facts j Let_def)
qed


section \<open>NULL in the three codecs\<close>

text \<open>
  The valuer plans that test \<open>Valid\<close> return nil for an invalid wrapper, and every plan
  that scans through a capability stores the zero wrapper for a nil payload.
\<close>

lemma invalid_wrapper_encodes_nil:
  "\<not> Bool_Valid b \<Longrightarrow> encodePlanBoolCodecBinaryBoolValuer_Encode (V_Bool b) buf = (None, None)"
  "\<not> Bool_Valid b \<Longrightarrow> encodePlanBoolCodecTextBoolValuer_Encode (V_Bool b) buf = (None, None)"
  "\<not> Float8_Valid f \<Longrightarrow> encodePlanFloat8CodecBinaryFloat64Valuer_Encode (V_Float8 f) buf = (None, None)"
  "\<not> Float8_Valid f \<Longrightarrow> encodePlanTextFloat64Valuer_Encode formatFloat (V_Float8 f) buf = (None, None)"
  "\<not> Int8_Valid n \<Longrightarrow> encodePlanFloat8CodecBinaryInt64Valuer_Encode ovf (V_Int8 n) buf = (None, None)"
  "\<not> Int8_Valid n \<Longrightarrow> encodePlanTextInt64Valuer_Encode ovf formatInt (V_Int8 n) buf = (None, None)"
  "\<not> Timestamptz_Valid ts \<Longrightarrow> encodePlanTimestamptzCodecBinary_Encode (V_Timestamptz ts) buf = (None, None)"
  by (simp_all add: encodePlanBoolCodecBinaryBoolValuer_Encode_def
      encodePlanBoolCodecTextBoolValuer_Encode_def encodePlanFloat8CodecBinaryFloat64Valuer_Encode_def
      encodePlanTextFloat64Valuer_Encode_def encodePlanFloat8CodecBinaryInt64Valuer_Encode_def
      encodePlanTextInt64Valuer_Encode_def encodePlanTimestamptzCodecBinary_Encode_def
      BoolValue_def Float64Value_def Int8_Int64Value_def TimestamptzValue_def)

lemma nil_scans_to_invalid_wrapper:
  "scanPlanBinaryBoolToBoolScanner_Scan None (Ptr_Bool b) = (Ptr_Bool Bool_zero, None)"
  "scanPlanTextAnyToBoolScanner_Scan None (Ptr_Bool b) = (Ptr_Bool Bool_zero, None)"
  "scanPlanBinaryFloat8ToFloat64Scanner_Scan None (Ptr_Float8 f) = (Ptr_Float8 Float8_zero, None)"
  "scanPlanTextAnyToFloat64Scanner_Scan parseFloat None (Ptr_Float8 f) = (Ptr_Float8 Float8_zero, None)"
  "scanPlanBinaryFloat8ToInt64Scanner_Scan ovf None (Ptr_Int8 n) = (Ptr_Int8 Int8_zero, None)"
  "scanPlanBinaryTimestamptzToTimestamptzScanner_Scan None (Ptr_Timestamptz ts) =
     (Ptr_Timestamptz Timestamptz_zero, None)"
  "scanPlanTextTimestamptzToTimestamptzScanner_Scan parse None (Ptr_Timestamptz ts) =
     (Ptr_Timestamptz Timestamptz_zero, None)"
  by (simp_all add: scanPlanBinaryBoolToBoolScanner_Scan_def scanPlanTextAnyToBoolScanner_Scan_def
      scanPlanBinaryFloat8ToFloat64Scanner_Scan_def scanPlanTextAnyToFloat64Scanner_Scan_def
      scanPlanBinaryFloat8ToInt64Scanner_Scan_def scanPlanBinaryTimestamptzToTimestamptzScanner_Scan_def
      scanPlanTextTimestamptzToTimestamptzScanner_Scan_def
      ScanBool_def ScanFloat64_def Int8_ScanInt64_def ScanTimestamptz_def)

text \<open>
  Claim C1 does not hold for the timestamptz text encode plan, which never tests
  \<open>Valid\<close>: for the zero wrapper (\<open>Valid\<close> false) and an empty buffer it returns the
  formatted zero time, and for an invalid wrapper with the +Infinity modifier the bytes of
  "infinity", where the binary plan returns nil. It is the plan \<open>PlanEncode\<close> selects for
  the text format.
\<close>

theorem timestamptz_text_encode_invalid:
  "encodePlanTimestamptzCodecText_Encode fmt (V_Timestamptz Timestamptz_zero) (Some []) =
     (Some (go_bytes (fmt Time_zero)), None)
   \<and> encodePlanTimestamptzCodecText_Encode fmt
       (V_Timestamptz \<lparr>Timestamptz_Time = Time_zero, Timestamptz_InfinityModifier = Infinity,
                       Timestamptz_Valid = False\<rparr>) (Some []) =
     (Some [105, 110, 102, 105, 110, 105, 116, 121], None)
   \<and> encodePlanTimestamptzCodecBinary_Encode (V_Timestamptz Timestamptz_zero) (Some []) = (None, None)
   \<and> TimestamptzCodec_PlanEncode fmt TextFormatCode (V_Timestamptz Timestamptz_zero) =
       Some (encodePlanTimestamptzCodecText_Encode fmt)"
  by (simp add: encodePlanTimestamptzCodecText_Encode_def encodePlanTimestamptzCodecBinary_Encode_def
      TimestamptzCodec_PlanEncode_def TimestamptzValue_def Timestamptz_zero_def go_bytes_def
      TextFormatCode_def BinaryFormatCode_def)

end
